theory Spec2Isabelle
  imports Complex_Main
begin

section \<open>Waterfall decomposition: the orchestrator of algo.py\<close>

text \<open>
  A shallow embedding of \<^verbatim>\<open>BaseAlgorithm\<close> (algo.py): its constructor, the
  apply-and-save step, the dimension pruning, the run loop and the correction step.

  Conventions.
  \<^item> Python floats are read as reals; the tolerance comparison \<^verbatim>\<open>utils.float_eq\<close>
    lives outside algo.py and is a parameter.
  \<^item> The pandas dataframe is an opaque type \<open>'df\<close>. What algo.py asks of it goes through
    parameters: the \<^verbatim>\<open>AlgoBlock\<close> constructor, \<^verbatim>\<open>out_block\<close> and the number of
    distinct values of a column (\<^verbatim>\<open>len(df[d].unique())\<close>).
  \<^item> An exception is a value: a failing method returns \<open>Inl\<close> of the exception together
    with the object as the exception leaves it, since the caller still holds the object.
  \<^item> The records written to the module logger \<^verbatim>\<open>_l\<close> are kept, in order, in the field
    \<open>logged\<close>, with the arguments of each format string rather than the formatted text.
\<close>

subsection \<open>Data\<close>

type_synonym dim = string
type_synonym keys = "(string \<times> string) list"
type_synonym block_type = string
type_synonym measure = string

datatype error =
    AssertionError
  | TypeError string
  | ZeroDivisionError
  | NotImplementedError string
  | OtherError string

text \<open>
  An \<^verbatim>\<open>AlgoBlock\<close>, by the attributes algo.py reads. \<open>None\<close> in \<open>keys\<close>, \<open>block_type\<close> and
  \<open>parent\<close> stands for a constructor argument left at its default.
\<close>

datatype block = AlgoBlock
  (keys: "keys option")
  (block_type: "block_type option")
  (parent: "block option")
  (cur_revenue: real)
  (ref_revenue: real)
  (cur_profit: real)
  (ref_profit: real)
  (contrib_bps: real)

record saved_block =
  snapshot :: block
  sb_contrib_bps :: real

text \<open>
  Modelled from the spec: \<^verbatim>\<open>SavedBlock.from_block\<close> (block.py is not part of the sources
  at hand). A Saved Block is an immutable copy of a Block's fields plus a contribution,
  which starts as the block's own.
\<close>

definition from_block :: "block \<Rightarrow> saved_block" where
  "from_block b = \<lparr>snapshot = b, sb_contrib_bps = contrib_bps b\<rparr>"

text \<open>An entry of \<^verbatim>\<open>params.pre_selected_blocks\<close>: algo.py reads its keys and block type.\<close>

record in_block =
  ib_keys :: keys
  ib_block_type :: block_type

record input_parameters =
  margin_type :: string
  ip_dims :: "dim list"

record algorithm_parameters =
  p_input_parameters :: input_parameters
  p_pre_selected_blocks :: "in_block list"
  p_waterfall_title :: string
  p_max_block_number :: int
  p_correct_mode :: string
  p_profit_measure :: measure

text \<open>
  The records sent to the logger, one constructor per format string. A block record holds
  the index, the scaled contribution, the block type (which \<^verbatim>\<open>block_type_repr\<close> renders), the
  ratio as a percentage and the keys.
\<close>

datatype log_record =
    BlockInfo int real "block_type option" real "keys option"
  | DimensionIgnored dim
  | NoBlockFound int

record 'df algo =
  df :: 'df
  correct_mode :: string
  params :: algorithm_parameters
  ratio_to_initial :: real
  global_block :: block
  saved_global_block :: saved_block
  dims :: "dim list"
  pre_selected_blocks :: "saved_block list"
  blocks :: "saved_block list"
  logged :: "log_record list"

record waterfall =
  wf_title :: string
  wf_dims :: "dim list"
  wf_cur_label :: string
  wf_ref_label :: string
  wf_global_block :: saved_block
  wf_blocks :: "saved_block list"
  wf_first_blocks :: "saved_block list"

text \<open>
  The collaborators of algo.py that are defined elsewhere, and the two methods a
  subclass overrides (\<^verbatim>\<open>find_next_block\<close>, \<^verbatim>\<open>log_file_caption\<close>).
  \<^item> \<open>algo_block d pm ks bt par\<close> is \<^verbatim>\<open>AlgoBlock(d, profit_meas=pm, keys=ks, block_type=bt, parent=par)\<close>;
  \<^item> \<open>out_block d b\<close> is the dataframe without the rows of \<open>b\<close>;
  \<^item> \<open>n_unique d c\<close> is \<^verbatim>\<open>len(d[c].unique())\<close>;
  \<^item> \<open>find_next_block a i lf\<close> reads the object and returns a block, \<open>None\<close> for a falsy
    result, or raises; what it writes to the log file is not followed;
  \<^item> \<open>log_file_caption a\<close> is \<open>None\<close> for a falsy caption.
\<close>

record 'df env =
  algo_block :: "'df \<Rightarrow> measure \<Rightarrow> keys option \<Rightarrow> block_type option \<Rightarrow> block option \<Rightarrow> block"
  out_block :: "'df \<Rightarrow> block \<Rightarrow> 'df"
  float_eq :: "real \<Rightarrow> real \<Rightarrow> bool"
  n_unique :: "'df \<Rightarrow> dim \<Rightarrow> nat"
  find_next_block :: "'df algo \<Rightarrow> int \<Rightarrow> string list option \<Rightarrow> error + block option"
  log_file_caption :: "'df algo \<Rightarrow> string option"

text \<open>The list an applied block is appended to: \<^verbatim>\<open>blist\<close> is one of the object's two lists.\<close>

datatype blist = PreSelected | Discovered

text \<open>
  The values of \<^verbatim>\<open>CORRECT_MODES\<close>. Modelled from the spec: the membership test of
  \<^verbatim>\<open>ValueList\<close> (value_list.py is not part of the sources at hand), an explicit test against
  the declared values.
\<close>

definition CORRECT_MODES :: "string list" where
  "CORRECT_MODES = [''DEL'']"

subsection \<open>Operations\<close>

definition info :: "log_record \<Rightarrow> 'df algo \<Rightarrow> 'df algo" where
  "info r a = a\<lparr>logged := logged a @ [r]\<rparr>"

definition truediv :: "real \<Rightarrow> real \<Rightarrow> error + real" where
  "truediv x y = (if y = 0 then Inl ZeroDivisionError else Inr (x / y))"

definition make_global_block :: "'df env \<Rightarrow> 'df algo \<Rightarrow> 'df \<Rightarrow> block" where
  "make_global_block E a d = algo_block E d (p_profit_measure (params a)) None None None"

definition make_block :: "'df env \<Rightarrow> 'df algo \<Rightarrow> keys \<Rightarrow> block_type \<Rightarrow> block" where
  "make_block E a ks bt =
     algo_block E (df a) (p_profit_measure (params a)) (Some ks) (Some bt) (Some (global_block a))"

text \<open>
  \<^verbatim>\<open>correct_facts\<close>. The test \<^verbatim>\<open>b.parent == self.global_block\<close> is equality of the two
  blocks as values. Every assertion comes before the first assignment. The last branch is
  \<^verbatim>\<open>raise NotImplemented(...)\<close>: \<^verbatim>\<open>NotImplemented\<close> is the constant, not the exception
  class, so the call itself raises \<^verbatim>\<open>TypeError\<close> (the object is not callable) and the
  formatted message is lost.
\<close>

definition not_callable :: string where
  "not_callable = [CHR 0x27] @ ''NotImplementedType'' @ [CHR 0x27] @ '' object is not callable''"

definition correct_facts :: "'df env \<Rightarrow> block \<Rightarrow> 'df algo \<Rightarrow> (error \<times> 'df algo) + 'df algo" where
  "correct_facts E b a =
     (if parent b \<noteq> Some (global_block a) then Inl (AssertionError, a)
      else if correct_mode a = ''DEL'' then
        (let next_df = out_block E (df a) b;
             next_gb = make_global_block E a next_df
         in if \<not> float_eq E (cur_revenue next_gb + cur_revenue b) (cur_revenue (global_block a))
              then Inl (AssertionError, a)
            else if \<not> float_eq E (ref_revenue next_gb + ref_revenue b) (ref_revenue (global_block a))
              then Inl (AssertionError, a)
            else if \<not> float_eq E (cur_profit next_gb + cur_profit b) (cur_profit (global_block a))
              then Inl (AssertionError, a)
            else if \<not> float_eq E (ref_profit next_gb + ref_profit b) (ref_profit (global_block a))
              then Inl (AssertionError, a)
            else if \<not> cur_revenue (global_block a) > 0 then Inl (AssertionError, a)
            else if \<not> cur_revenue next_gb > 0 then Inl (AssertionError, a)
            else (case truediv (cur_revenue next_gb) (cur_revenue (global_block a)) of
                    Inl e \<Rightarrow> Inl (e, a)
                  | Inr x \<Rightarrow>
                      Inr (a\<lparr>ratio_to_initial := ratio_to_initial a * x,
                             global_block := next_gb,
                             df := next_df\<rparr>)))
      else Inl (TypeError not_callable, a))"

text \<open>\<^verbatim>\<open>__remove_unnecessary_dimensions\<close>: the loop over \<^verbatim>\<open>self.dims\<close>, then the assignment.\<close>

fun remove_loop :: "'df env \<Rightarrow> dim list \<Rightarrow> dim list \<Rightarrow> 'df algo \<Rightarrow> 'df algo" where
  "remove_loop E [] new_dims a = a\<lparr>dims := new_dims\<rparr>"
| "remove_loop E (d # ds) new_dims a =
     (if n_unique E (df a) d = 1
      then remove_loop E ds new_dims (info (DimensionIgnored d) a)
      else remove_loop E ds (new_dims @ [d]) a)"

definition remove_unnecessary_dimensions :: "'df env \<Rightarrow> 'df algo \<Rightarrow> 'df algo" where
  "remove_unnecessary_dimensions E a = remove_loop E (dims a) [] a"

definition append_block :: "blist \<Rightarrow> saved_block \<Rightarrow> 'df algo \<Rightarrow> 'df algo" where
  "append_block l sb a =
     (case l of
        PreSelected \<Rightarrow> a\<lparr>pre_selected_blocks := pre_selected_blocks a @ [sb]\<rparr>
      | Discovered \<Rightarrow> a\<lparr>blocks := blocks a @ [sb]\<rparr>)"

definition target :: "blist \<Rightarrow> 'df algo \<Rightarrow> saved_block list" where
  "target l a = (case l of PreSelected \<Rightarrow> pre_selected_blocks a | Discovered \<Rightarrow> blocks a)"

text \<open>\<^verbatim>\<open>__apply_and_save_block\<close>.\<close>

definition apply_and_save_block ::
  "'df env \<Rightarrow> block \<Rightarrow> blist \<Rightarrow> int \<Rightarrow> 'df algo \<Rightarrow> (error \<times> 'df algo) + 'df algo" where
  "apply_and_save_block E b l index a =
     (let sb = (from_block b)\<lparr>sb_contrib_bps := contrib_bps b * ratio_to_initial a\<rparr>;
          a1 = info (BlockInfo index (sb_contrib_bps sb) (block_type (snapshot sb))
                       (100 * ratio_to_initial a) (keys (snapshot sb))) a
      in case correct_facts E b a1 of
           Inl err \<Rightarrow> Inl err
         | Inr a2 \<Rightarrow> Inr (remove_unnecessary_dimensions E (append_block l sb a2)))"

text \<open>
  \<^verbatim>\<open>__init__\<close>. \<open>initial\<close> is the object as the assignments before the loop leave it, the
  first pruning apart; the two empty lists, which the source assigns after that pruning,
  are set here at once, since pruning neither reads nor writes them. \<open>pre_select\<close> is the
  loop over the pre-selected blocks, whose index is incremented before each call. A
  constructor that raises yields no object.
\<close>

definition initial :: "'df env \<Rightarrow> algorithm_parameters \<Rightarrow> 'df \<Rightarrow> 'df algo" where
  "initial E p d =
     (let gb = algo_block E d (p_profit_measure p) None None None
      in \<lparr>df = d, correct_mode = p_correct_mode p, params = p, ratio_to_initial = 1,
          global_block = gb, saved_global_block = from_block gb,
          dims = ip_dims (p_input_parameters p),
          pre_selected_blocks = [], blocks = [], logged = []\<rparr>)"

fun pre_select :: "'df env \<Rightarrow> in_block list \<Rightarrow> int \<Rightarrow> 'df algo \<Rightarrow> (error \<times> 'df algo) + 'df algo" where
  "pre_select E [] i a = Inr a"
| "pre_select E (ib # ibs) i a =
     (let b = make_block E a (ib_keys ib) (ib_block_type ib);
          i' = i + 1
      in case apply_and_save_block E b PreSelected i' a of
           Inl err \<Rightarrow> Inl err
         | Inr a' \<Rightarrow> pre_select E ibs i' a')"

definition init :: "'df env \<Rightarrow> algorithm_parameters \<Rightarrow> 'df \<Rightarrow> error + 'df algo" where
  "init E p d =
     (if p_correct_mode p \<notin> set CORRECT_MODES then Inl AssertionError
      else case pre_select E (p_pre_selected_blocks p)
                  (- int (length (p_pre_selected_blocks p)) - 1)
                  (remove_unnecessary_dimensions E (initial E p d)) of
             Inl (e, a) \<Rightarrow> Inl e
           | Inr a \<Rightarrow> Inr a)"

text \<open>
  \<^verbatim>\<open>run\<close>. \<open>range0 n\<close> is \<^verbatim>\<open>range(0, n)\<close>, empty when \<open>n \<le> 0\<close>. The log file is \<open>None\<close> when
  absent and the lines written to it otherwise; it is returned with the object.
\<close>

definition range0 :: "int \<Rightarrow> int list" where
  "range0 n = map int [0..<nat n]"

fun run_loop ::
  "'df env \<Rightarrow> string list option \<Rightarrow> int list \<Rightarrow> 'df algo \<Rightarrow> (error \<times> 'df algo) + 'df algo" where
  "run_loop E lf [] a = Inr a"
| "run_loop E lf (i # is) a =
     (case find_next_block E a i lf of
        Inl e \<Rightarrow> Inl (e, a)
      | Inr None \<Rightarrow> Inr (info (NoBlockFound i) a)
      | Inr (Some b) \<Rightarrow>
          (case apply_and_save_block E b Discovered i a of
             Inl err \<Rightarrow> Inl err
           | Inr a' \<Rightarrow> run_loop E lf is a'))"

definition write_caption :: "'df env \<Rightarrow> 'df algo \<Rightarrow> string list option \<Rightarrow> string list option" where
  "write_caption E a lf =
     (case lf of
        None \<Rightarrow> None
      | Some ls \<Rightarrow>
          (case log_file_caption E a of
             None \<Rightarrow> Some ls
           | Some c \<Rightarrow> Some (ls @ [c @ [CHR 0x0A]])))"

definition make_waterfall :: "'df algo \<Rightarrow> waterfall" where
  "make_waterfall a =
     \<lparr>wf_title = p_waterfall_title (params a),
      wf_dims = ip_dims (p_input_parameters (params a)),
      wf_cur_label = ''Actuel'',
      wf_ref_label = ''R'' @ [CHR 0xE9] @ ''f'' @ [CHR 0xE9] @ ''rence'',
      wf_global_block = saved_global_block a,
      wf_blocks = blocks a,
      wf_first_blocks = pre_selected_blocks a\<rparr>"

definition run ::
  "'df env \<Rightarrow> string list option \<Rightarrow> 'df algo
     \<Rightarrow> (error \<times> 'df algo \<times> string list option) + (waterfall \<times> 'df algo \<times> string list option)" where
  "run E log_file a =
     (if blocks a \<noteq> [] then Inl (AssertionError, a, log_file)
      else let lf = write_caption E a log_file
           in case run_loop E lf (range0 (p_max_block_number (params a))) a of
                Inl (e, a') \<Rightarrow> Inl (e, a', lf)
              | Inr a' \<Rightarrow> Inr (make_waterfall a', a', lf))"


subsection \<open>An example: three rows, two dimensions\<close>

text \<open>
  A dataframe as a list of rows, each with its dimension values, its revenue and its
  contribution. A block aggregates the rows its keys match; the strategy proposes the
  region EU at index 0 and the product Widgets at index 1, and nothing after.
\<close>

type_synonym ex_row = "keys \<times> real \<times> real"

definition ex_matches :: "keys option \<Rightarrow> ex_row \<Rightarrow> bool" where
  "ex_matches ks r = (case ks of None \<Rightarrow> True | Some k \<Rightarrow> list_all (\<lambda>(c, v). map_of (fst r) c = Some v) k)"

definition ex_algo_block ::
  "ex_row list \<Rightarrow> measure \<Rightarrow> keys option \<Rightarrow> block_type option \<Rightarrow> block option \<Rightarrow> block" where
  "ex_algo_block d pm ks bt par =
     (let rs = filter (ex_matches ks) d
      in AlgoBlock ks bt par (sum_list (map (\<lambda>r. fst (snd r)) rs)) (sum_list (map (\<lambda>r. fst (snd r)) rs))
           0 0 (sum_list (map (\<lambda>r. snd (snd r)) rs)))"

definition ex_out_block :: "ex_row list \<Rightarrow> block \<Rightarrow> ex_row list" where
  "ex_out_block d b = filter (\<lambda>r. \<not> ex_matches (keys b) r) d"

definition ex_float_eq :: "real \<Rightarrow> real \<Rightarrow> bool" where
  "ex_float_eq x y = (\<bar>x - y\<bar> \<le> max \<bar>x\<bar> \<bar>y\<bar> / 1000000)"

definition ex_n_unique :: "ex_row list \<Rightarrow> dim \<Rightarrow> nat" where
  "ex_n_unique d c = length (remdups (map (\<lambda>r. map_of (fst r) c) d))"

definition ex_find_next_block :: "ex_row list algo \<Rightarrow> int \<Rightarrow> string list option \<Rightarrow> error + block option" where
  "ex_find_next_block a i lf =
     (if i = 0 then
        Inr (Some (ex_algo_block (df a) (p_profit_measure (params a))
                     (Some [(''Region'', ''EU'')]) (Some ''TD'') (Some (global_block a))))
      else if i = 1 then
        Inr (Some (ex_algo_block (df a) (p_profit_measure (params a))
                     (Some [(''Product'', ''Widgets'')]) (Some ''TD'') (Some (global_block a))))
      else Inr None)"

definition ex_env :: "ex_row list env" where
  "ex_env = \<lparr>algo_block = ex_algo_block, out_block = ex_out_block, float_eq = ex_float_eq,
             n_unique = ex_n_unique, find_next_block = ex_find_next_block,
             log_file_caption = (\<lambda>a. None)\<rparr>"

definition ex_df :: "ex_row list" where
  "ex_df =
     [([(''Region'', ''EU''), (''Product'', ''Widgets'')], 300000, -50),
      ([(''Region'', ''US''), (''Product'', ''Widgets'')], 200000, -20),
      ([(''Region'', ''US''), (''Product'', ''Gadgets'')], 500000, 0)]"

definition ex_params :: algorithm_parameters where
  "ex_params =
     \<lparr>p_input_parameters = \<lparr>margin_type = ''M'', ip_dims = [''Region'', ''Product'']\<rparr>,
      p_pre_selected_blocks = [],
      p_waterfall_title = ''W'',
      p_max_block_number = 3,
      p_correct_mode = ''DEL'',
      p_profit_measure = ''profit''\<rparr>"


text \<open>The four equalities \<^verbatim>\<open>correct_facts\<close> asserts, for a new global block, a block and the old one.\<close>

definition conserved :: "'df env \<Rightarrow> block \<Rightarrow> block \<Rightarrow> block \<Rightarrow> bool" where
  "conserved E next_gb b gb \<longleftrightarrow>
     float_eq E (cur_revenue next_gb + cur_revenue b) (cur_revenue gb) \<and>
     float_eq E (ref_revenue next_gb + ref_revenue b) (ref_revenue gb) \<and>
     float_eq E (cur_profit next_gb + cur_profit b) (cur_profit gb) \<and>
     float_eq E (ref_profit next_gb + ref_profit b) (ref_profit gb)"

text \<open>The record \<^verbatim>\<open>__apply_and_save_block\<close> logs for block \<open>b\<close> at index \<open>i\<close> under ratio \<open>r\<close>.\<close>

definition block_info :: "int \<Rightarrow> block \<Rightarrow> real \<Rightarrow> log_record" where
  "block_info i b r = BlockInfo i (contrib_bps b * r) (block_type b) (100 * r) (keys b)"

text \<open>The Saved Block \<^verbatim>\<open>__apply_and_save_block\<close> builds for block \<open>b\<close> under ratio \<open>r\<close>.\<close>

definition scaled :: "block \<Rightarrow> real \<Rightarrow> saved_block" where
  "scaled b r = \<lparr>snapshot = b, sb_contrib_bps = contrib_bps b * r\<rparr>"

subsection \<open>Notions the properties are stated with\<close>

text \<open>
  A sequence of applied blocks, each with its target list and its index, as the constructor
  and \<^verbatim>\<open>run\<close> perform them one after the other. Each application holds one correction
  step; the result lists, step by step, the quotient of the new global block's current
  revenue by the old one's.
\<close>

fun corrections ::
  "'df env \<Rightarrow> (block \<times> blist \<times> int) list \<Rightarrow> 'df algo \<Rightarrow> (error \<times> 'df algo) + (real list \<times> 'df algo)" where
  "corrections E [] a = Inr ([], a)"
| "corrections E ((b, l, i) # steps) a =
     (case apply_and_save_block E b l i a of
        Inl err \<Rightarrow> Inl err
      | Inr a' \<Rightarrow>
          (case corrections E steps a' of
             Inl err \<Rightarrow> Inl err
           | Inr (rs, a'') \<Rightarrow>
               Inr (cur_revenue (global_block a') / cur_revenue (global_block a) # rs, a'')))"

text \<open>
  Pre-selection as the specification words it: for each key-set in input order, the block
  is built over the current working table with the current global block as parent, the
  table loses the block's rows, and a new global block is computed over what is left.
  The result is the blocks in order, the last table and the last global block.
\<close>

fun pre_selection ::
  "'df env \<Rightarrow> measure \<Rightarrow> in_block list \<Rightarrow> 'df \<Rightarrow> block \<Rightarrow> block list \<times> 'df \<times> block" where
  "pre_selection E pm [] d g = ([], d, g)"
| "pre_selection E pm (ib # ibs) d g =
     (let b = algo_block E d pm (Some (ib_keys ib)) (Some (ib_block_type ib)) (Some g);
          d' = out_block E d b;
          g' = algo_block E d' pm None None None
      in case pre_selection E pm ibs d' g' of (bs, dn, gn) \<Rightarrow> (b # bs, dn, gn))"

text \<open>The indices of the block records of a log, in order.\<close>

fun block_indices :: "log_record list \<Rightarrow> int list" where
  "block_indices [] = []"
| "block_indices (BlockInfo i c t r k # rs) = i # block_indices rs"
| "block_indices (DimensionIgnored c # rs) = block_indices rs"
| "block_indices (NoBlockFound i # rs) = block_indices rs"

text \<open>The indices at which a log records that no block was found, in order.\<close>

fun no_block_indices :: "log_record list \<Rightarrow> int list" where
  "no_block_indices [] = []"
| "no_block_indices (NoBlockFound i # rs) = i # no_block_indices rs"
| "no_block_indices (BlockInfo i c t r k # rs) = no_block_indices rs"
| "no_block_indices (DimensionIgnored c # rs) = no_block_indices rs"

text \<open>No tracked dimension has exactly one distinct value in the working table.\<close>

definition pruned :: "'df env \<Rightarrow> 'df algo \<Rightarrow> bool" where
  "pruned E a \<longleftrightarrow> list_all (\<lambda>c. n_unique E (df a) c \<noteq> 1) (dims a)"

text \<open>The records an operation added to the log, between the object before and after.\<close>

definition new_records :: "'df algo \<Rightarrow> 'df algo \<Rightarrow> log_record list" where
  "new_records a a' = drop (length (logged a)) (logged a')"

text \<open>The objects the example goes through: built, after each of the two blocks, at the end.\<close>

definition ex_gb0 :: block where
  "ex_gb0 = AlgoBlock None None None 1000000 1000000 0 0 (-70)"

definition ex_b0 :: block where
  "ex_b0 = AlgoBlock (Some [(''Region'', ''EU'')]) (Some ''TD'') (Some ex_gb0) 300000 300000 0 0 (-50)"

definition ex_df1 :: "ex_row list" where
  "ex_df1 =
     [([(''Region'', ''US''), (''Product'', ''Widgets'')], 200000, -20),
      ([(''Region'', ''US''), (''Product'', ''Gadgets'')], 500000, 0)]"

definition ex_gb1 :: block where
  "ex_gb1 = AlgoBlock None None None 700000 700000 0 0 (-20)"

definition ex_b1 :: block where
  "ex_b1 = AlgoBlock (Some [(''Product'', ''Widgets'')]) (Some ''TD'') (Some ex_gb1) 200000 200000 0 0 (-20)"

definition ex_df2 :: "ex_row list" where
  "ex_df2 = [([(''Region'', ''US''), (''Product'', ''Gadgets'')], 500000, 0)]"

definition ex_gb2 :: block where
  "ex_gb2 = AlgoBlock None None None 500000 500000 0 0 0"

definition ex_a0 :: "ex_row list algo" where
  "ex_a0 =
     \<lparr>df = ex_df, correct_mode = ''DEL'', params = ex_params, ratio_to_initial = 1,
      global_block = ex_gb0, saved_global_block = \<lparr>snapshot = ex_gb0, sb_contrib_bps = -70\<rparr>,
      dims = [''Region'', ''Product''], pre_selected_blocks = [], blocks = [], logged = []\<rparr>"

definition ex_c0 :: "ex_row list algo" where
  "ex_c0 = ex_a0\<lparr>ratio_to_initial := 7 / 10, global_block := ex_gb1, df := ex_df1\<rparr>"

definition ex_a1 :: "ex_row list algo" where
  "ex_a1 =
     \<lparr>df = ex_df1, correct_mode = ''DEL'', params = ex_params, ratio_to_initial = 7 / 10,
      global_block = ex_gb1, saved_global_block = \<lparr>snapshot = ex_gb0, sb_contrib_bps = -70\<rparr>,
      dims = [''Product''], pre_selected_blocks = [],
      blocks = [\<lparr>snapshot = ex_b0, sb_contrib_bps = -50\<rparr>],
      logged = [BlockInfo 0 (-50) (Some ''TD'') 100 (Some [(''Region'', ''EU'')]),
                DimensionIgnored ''Region'']\<rparr>"

definition ex_a2 :: "ex_row list algo" where
  "ex_a2 =
     \<lparr>df = ex_df2, correct_mode = ''DEL'', params = ex_params, ratio_to_initial = 1 / 2,
      global_block = ex_gb2, saved_global_block = \<lparr>snapshot = ex_gb0, sb_contrib_bps = -70\<rparr>,
      dims = [], pre_selected_blocks = [],
      blocks = [\<lparr>snapshot = ex_b0, sb_contrib_bps = -50\<rparr>, \<lparr>snapshot = ex_b1, sb_contrib_bps = -14\<rparr>],
      logged = [BlockInfo 0 (-50) (Some ''TD'') 100 (Some [(''Region'', ''EU'')]),
                DimensionIgnored ''Region'',
                BlockInfo 1 (-14) (Some ''TD'') 70 (Some [(''Product'', ''Widgets'')]),
                DimensionIgnored ''Product'']\<rparr>"

definition ex_a3 :: "ex_row list algo" where
  "ex_a3 = ex_a2\<lparr>logged := logged ex_a2 @ [NoBlockFound 2]\<rparr>"

text \<open>
  Variations on the example: a row filter that removes nothing, a block over all the rows
  left at the end, and the same two blocks given as pre-selected, with the object the
  constructor then builds.
\<close>

definition ex_env_keep :: "ex_row list env" where
  "ex_env_keep = ex_env\<lparr>out_block := (\<lambda>d b. d)\<rparr>"

definition ex_b_us :: block where
  "ex_b_us = AlgoBlock (Some [(''Region'', ''US'')]) (Some ''TD'') (Some ex_gb2) 500000 500000 0 0 0"

definition ex_params_pre :: algorithm_parameters where
  "ex_params_pre = ex_params\<lparr>p_pre_selected_blocks :=
     [\<lparr>ib_keys = [(''Region'', ''EU'')], ib_block_type = ''TD''\<rparr>,
      \<lparr>ib_keys = [(''Product'', ''Widgets'')], ib_block_type = ''TD''\<rparr>]\<rparr>"

definition ex_p2 :: "ex_row list algo" where
  "ex_p2 =
     \<lparr>df = ex_df2, correct_mode = ''DEL'', params = ex_params_pre, ratio_to_initial = 1 / 2,
      global_block = ex_gb2, saved_global_block = \<lparr>snapshot = ex_gb0, sb_contrib_bps = -70\<rparr>,
      dims = [],
      pre_selected_blocks = [\<lparr>snapshot = ex_b0, sb_contrib_bps = -50\<rparr>, \<lparr>snapshot = ex_b1, sb_contrib_bps = -14\<rparr>],
      blocks = [],
      logged = [BlockInfo (-2) (-50) (Some ''TD'') 100 (Some [(''Region'', ''EU'')]),
                DimensionIgnored ''Region'',
                BlockInfo (-1) (-14) (Some ''TD'') 70 (Some [(''Product'', ''Widgets'')]),
                DimensionIgnored ''Product'']\<rparr>"

text \<open>
  More variations: a strategy that never finds a block, with the objects two runs in a row
  then leave; the object a run leaves when the row filter removes nothing and the first
  correction fails; a correction mode other than DEL.
\<close>

definition ex_env_idle :: "ex_row list env" where
  "ex_env_idle = ex_env\<lparr>find_next_block := (\<lambda>a i lf. Inr None)\<rparr>"

definition ex_i1 :: "ex_row list algo" where
  "ex_i1 = ex_a0\<lparr>logged := [NoBlockFound 0]\<rparr>"

definition ex_i2 :: "ex_row list algo" where
  "ex_i2 = ex_a0\<lparr>logged := [NoBlockFound 0, NoBlockFound 0]\<rparr>"

definition ex_k0 :: "ex_row list algo" where
  "ex_k0 = ex_a0\<lparr>logged := [BlockInfo 0 (-50) (Some ''TD'') 100 (Some [(''Region'', ''EU'')])]\<rparr>"

definition ex_mul :: "ex_row list algo" where
  "ex_mul = ex_a0\<lparr>correct_mode := ''MUL''\<rparr>"

section \<open>Properties\<close>

subsection \<open>What each operation leaves alone\<close>

lemma info_fields [simp]:
  "df (info r a) = df a" "correct_mode (info r a) = correct_mode a" "params (info r a) = params a"
  "ratio_to_initial (info r a) = ratio_to_initial a" "global_block (info r a) = global_block a"
  "saved_global_block (info r a) = saved_global_block a" "dims (info r a) = dims a"
  "pre_selected_blocks (info r a) = pre_selected_blocks a" "blocks (info r a) = blocks a"
  "logged (info r a) = logged a @ [r]"
  by (simp_all add: info_def)

lemma make_global_block_info [simp]: "make_global_block E (info r a) d = make_global_block E a d"
  by (simp add: make_global_block_def)

lemma remove_loop_fields:
  "df (remove_loop E ds nd a) = df a"
  "correct_mode (remove_loop E ds nd a) = correct_mode a"
  "params (remove_loop E ds nd a) = params a"
  "ratio_to_initial (remove_loop E ds nd a) = ratio_to_initial a"
  "global_block (remove_loop E ds nd a) = global_block a"
  "saved_global_block (remove_loop E ds nd a) = saved_global_block a"
  "pre_selected_blocks (remove_loop E ds nd a) = pre_selected_blocks a"
  "blocks (remove_loop E ds nd a) = blocks a"
  by (induction ds arbitrary: nd a; simp)+

lemma remove_loop_dims:
  "dims (remove_loop E ds nd a) = nd @ filter (\<lambda>c. n_unique E (df a) c \<noteq> 1) ds"
  by (induction ds arbitrary: nd a) simp_all

lemma remove_loop_logged:
  "logged (remove_loop E ds nd a) =
     logged a @ map DimensionIgnored (filter (\<lambda>c. n_unique E (df a) c = 1) ds)"
  by (induction ds arbitrary: nd a) simp_all

lemma prune_fields [simp]:
  "df (remove_unnecessary_dimensions E a) = df a"
  "correct_mode (remove_unnecessary_dimensions E a) = correct_mode a"
  "params (remove_unnecessary_dimensions E a) = params a"
  "ratio_to_initial (remove_unnecessary_dimensions E a) = ratio_to_initial a"
  "global_block (remove_unnecessary_dimensions E a) = global_block a"
  "saved_global_block (remove_unnecessary_dimensions E a) = saved_global_block a"
  "pre_selected_blocks (remove_unnecessary_dimensions E a) = pre_selected_blocks a"
  "blocks (remove_unnecessary_dimensions E a) = blocks a"
  by (simp_all add: remove_unnecessary_dimensions_def remove_loop_fields)

lemma prune_dims:
  "dims (remove_unnecessary_dimensions E a) = filter (\<lambda>c. n_unique E (df a) c \<noteq> 1) (dims a)"
  by (simp add: remove_unnecessary_dimensions_def remove_loop_dims)

lemma prune_logged:
  "logged (remove_unnecessary_dimensions E a) =
     logged a @ map DimensionIgnored (filter (\<lambda>c. n_unique E (df a) c = 1) (dims a))"
  by (simp add: remove_unnecessary_dimensions_def remove_loop_logged)

lemma append_block_fields [simp]:
  "df (append_block l sb a) = df a"
  "correct_mode (append_block l sb a) = correct_mode a"
  "params (append_block l sb a) = params a"
  "ratio_to_initial (append_block l sb a) = ratio_to_initial a"
  "global_block (append_block l sb a) = global_block a"
  "saved_global_block (append_block l sb a) = saved_global_block a"
  "dims (append_block l sb a) = dims a"
  "logged (append_block l sb a) = logged a"
  by (simp_all add: append_block_def split: blist.splits)

lemma append_block_lists:
  "pre_selected_blocks (append_block Discovered sb a) = pre_selected_blocks a"
  "blocks (append_block PreSelected sb a) = blocks a"
  "pre_selected_blocks (append_block PreSelected sb a) = pre_selected_blocks a @ [sb]"
  "blocks (append_block Discovered sb a) = blocks a @ [sb]"
  by (simp_all add: append_block_def)

lemma target_append_block: "target l (append_block l sb a) = target l a @ [sb]"
  by (cases l) (simp_all add: append_block_def target_def)

lemma target_prune [simp]: "target l (remove_unnecessary_dimensions E a) = target l a"
  by (cases l) (simp_all add: target_def)

subsection \<open>The correction step, case by case\<close>

lemma correct_facts_Inl: "correct_facts E b a = Inl (e, a') \<Longrightarrow> a' = a"
  by (auto simp: correct_facts_def Let_def truediv_def split: if_splits)

lemma correct_facts_error:
  "correct_facts E b a = Inl (e, a') \<Longrightarrow> e = AssertionError \<or> e = TypeError not_callable"
  by (auto simp: correct_facts_def Let_def truediv_def split: if_splits)

lemma correct_facts_Inr:
  assumes "correct_facts E b a = Inr a'"
  shows "parent b = Some (global_block a)" "correct_mode a = ''DEL''"
    "conserved E (make_global_block E a (out_block E (df a) b)) b (global_block a)"
    "0 < cur_revenue (global_block a)"
    "0 < cur_revenue (make_global_block E a (out_block E (df a) b))"
    "a' = a\<lparr>ratio_to_initial := ratio_to_initial a *
              (cur_revenue (make_global_block E a (out_block E (df a) b)) / cur_revenue (global_block a)),
            global_block := make_global_block E a (out_block E (df a) b),
            df := out_block E (df a) b\<rparr>"
  using assms
  by (auto simp: correct_facts_def Let_def truediv_def conserved_def split: if_splits)

lemma correct_facts_DEL_fails:
  assumes "correct_mode a = ''DEL''"
    and "parent b \<noteq> Some (global_block a)
         \<or> \<not> conserved E (make_global_block E a (out_block E (df a) b)) b (global_block a)
         \<or> cur_revenue (global_block a) \<le> 0
         \<or> cur_revenue (make_global_block E a (out_block E (df a) b)) \<le> 0"
  shows "correct_facts E b a = Inl (AssertionError, a)"
  using assms
  by (auto simp: correct_facts_def Let_def truediv_def conserved_def split: if_splits)

lemma correct_facts_stale: "parent b \<noteq> Some (global_block a) \<Longrightarrow> correct_facts E b a = Inl (AssertionError, a)"
  by (simp add: correct_facts_def)

subsection \<open>Apply-and-save, case by case\<close>

lemma apply_and_save_block_unfold:
  "apply_and_save_block E b l i a =
     (case correct_facts E b (info (block_info i b (ratio_to_initial a)) a) of
        Inl err \<Rightarrow> Inl err
      | Inr a2 \<Rightarrow> Inr (remove_unnecessary_dimensions E (append_block l (scaled b (ratio_to_initial a)) a2)))"
  by (simp add: apply_and_save_block_def Let_def from_block_def block_info_def scaled_def
      split: sum.splits)

lemma apply_and_save_block_Inl:
  assumes "apply_and_save_block E b l i a = Inl (e, a')"
  shows "a' = info (block_info i b (ratio_to_initial a)) a"
    and "correct_facts E b (info (block_info i b (ratio_to_initial a)) a) = Inl (e, a')"
  using assms
  by (auto simp: apply_and_save_block_unfold split: sum.splits dest: correct_facts_Inl)

lemma apply_and_save_block_Inr:
  assumes "apply_and_save_block E b l i a = Inr a'"
  shows "parent b = Some (global_block a)" "correct_mode a = ''DEL''"
    "conserved E (global_block a') b (global_block a)"
    "0 < cur_revenue (global_block a)" "0 < cur_revenue (global_block a')"
    "df a' = out_block E (df a) b"
    "global_block a' = make_global_block E a (out_block E (df a) b)"
    "ratio_to_initial a' =
       ratio_to_initial a * (cur_revenue (global_block a') / cur_revenue (global_block a))"
    "params a' = params a" "correct_mode a' = correct_mode a"
    "saved_global_block a' = saved_global_block a"
    "target l a' = target l a @ [scaled b (ratio_to_initial a)]"
    "dims a' = filter (\<lambda>c. n_unique E (df a') c \<noteq> 1) (dims a)"
    "logged a' = logged a @ block_info i b (ratio_to_initial a)
                   # map DimensionIgnored (filter (\<lambda>c. n_unique E (df a') c = 1) (dims a))"
proof -
  let ?a1 = "info (block_info i b (ratio_to_initial a)) a"
  from assms obtain a2 where c: "correct_facts E b ?a1 = Inr a2"
    and a': "a' = remove_unnecessary_dimensions E (append_block l (scaled b (ratio_to_initial a)) a2)"
    by (auto simp: apply_and_save_block_unfold split: sum.splits)
  note f = correct_facts_Inr [OF c]
  show "parent b = Some (global_block a)" using f(1) by simp
  show "correct_mode a = ''DEL''" using f(2) by simp
  have a2: "a2 = ?a1\<lparr>ratio_to_initial := ratio_to_initial a *
              (cur_revenue (make_global_block E a (out_block E (df a) b)) / cur_revenue (global_block a)),
            global_block := make_global_block E a (out_block E (df a) b),
            df := out_block E (df a) b\<rparr>"
    using f(6) by simp
  show "global_block a' = make_global_block E a (out_block E (df a) b)"
    by (simp add: a' a2)
  then show "conserved E (global_block a') b (global_block a)" using f(3) by simp
  show "0 < cur_revenue (global_block a)" using f(4) by simp
  show "0 < cur_revenue (global_block a')" using f(5) by (simp add: a' a2)
  show "df a' = out_block E (df a) b" by (simp add: a' a2)
  show "ratio_to_initial a' =
       ratio_to_initial a * (cur_revenue (global_block a') / cur_revenue (global_block a))"
    by (simp add: a' a2)
  show "params a' = params a" by (simp add: a' a2)
  show "correct_mode a' = correct_mode a" by (simp add: a' a2)
  show "saved_global_block a' = saved_global_block a" by (simp add: a' a2)
  show "target l a' = target l a @ [scaled b (ratio_to_initial a)]"
    by (cases l) (simp_all add: a' a2 target_def append_block_lists)
  show "dims a' = filter (\<lambda>c. n_unique E (df a') c \<noteq> 1) (dims a)"
    by (simp add: a' a2 prune_dims)
  show "logged a' = logged a @ block_info i b (ratio_to_initial a)
                   # map DimensionIgnored (filter (\<lambda>c. n_unique E (df a') c = 1) (dims a))"
    by (simp add: a' a2 prune_logged)
qed

lemma apply_and_save_block_other_list:
  assumes "apply_and_save_block E b l i a = Inr a'"
  shows "l = Discovered \<Longrightarrow> pre_selected_blocks a' = pre_selected_blocks a"
    and "l = PreSelected \<Longrightarrow> blocks a' = blocks a"
proof -
  from assms obtain a2 where c: "correct_facts E b (info (block_info i b (ratio_to_initial a)) a) = Inr a2"
    and a': "a' = remove_unnecessary_dimensions E (append_block l (scaled b (ratio_to_initial a)) a2)"
    by (auto simp: apply_and_save_block_unfold split: sum.splits)
  show "l = Discovered \<Longrightarrow> pre_selected_blocks a' = pre_selected_blocks a"
    by (simp add: a' correct_facts_Inr(6) [OF c] append_block_lists)
  show "l = PreSelected \<Longrightarrow> blocks a' = blocks a"
    by (simp add: a' correct_facts_Inr(6) [OF c] append_block_lists)
qed

lemma initial_fields [simp]:
  "df (initial E p d) = d" "correct_mode (initial E p d) = p_correct_mode p"
  "params (initial E p d) = p" "ratio_to_initial (initial E p d) = 1"
  "global_block (initial E p d) = algo_block E d (p_profit_measure p) None None None"
  "dims (initial E p d) = ip_dims (p_input_parameters p)"
  "pre_selected_blocks (initial E p d) = []" "blocks (initial E p d) = []"
  "logged (initial E p d) = []"
  by (simp_all add: initial_def Let_def)

subsection \<open>The example, evaluated\<close>

lemmas ex_defs = ex_env_def ex_algo_block_def ex_out_block_def ex_float_eq_def ex_n_unique_def
  ex_find_next_block_def ex_matches_def ex_df_def ex_df1_def ex_df2_def ex_gb0_def ex_gb1_def ex_gb2_def
  ex_b0_def ex_b1_def ex_params_def

lemma ex_init: "init ex_env ex_params ex_df = Inr ex_a0"
  by (simp add: init_def initial_def Let_def info_def CORRECT_MODES_def remove_unnecessary_dimensions_def
      from_block_def ex_a0_def ex_defs)

lemma ex_a0_initial: "remove_unnecessary_dimensions ex_env (initial ex_env ex_params ex_df) = ex_a0"
  by (simp add: initial_def Let_def info_def remove_unnecessary_dimensions_def
      from_block_def ex_a0_def ex_defs)

lemma ex_find0: "find_next_block ex_env ex_a0 0 lf = Inr (Some ex_b0)"
  by (simp add: ex_a0_def ex_defs)

lemma ex_correct0: "correct_facts ex_env ex_b0 ex_a0 = Inr ex_c0"
  by (simp add: correct_facts_def make_global_block_def truediv_def Let_def ex_a0_def ex_c0_def ex_defs)

lemma ex_apply0: "apply_and_save_block ex_env ex_b0 Discovered 0 ex_a0 = Inr ex_a1"
  by (simp add: apply_and_save_block_def from_block_def info_def append_block_def
      remove_unnecessary_dimensions_def
      correct_facts_def make_global_block_def truediv_def Let_def ex_a0_def ex_a1_def ex_defs)

lemma ex_find1: "find_next_block ex_env ex_a1 1 lf = Inr (Some ex_b1)"
  by (simp add: ex_a1_def ex_defs)

lemma ex_apply1: "apply_and_save_block ex_env ex_b1 Discovered 1 ex_a1 = Inr ex_a2"
  by (simp add: apply_and_save_block_def from_block_def info_def append_block_def
      remove_unnecessary_dimensions_def
      correct_facts_def make_global_block_def truediv_def Let_def ex_a1_def ex_a2_def ex_defs)

lemma ex_find2: "find_next_block ex_env ex_a2 2 lf = Inr None"
  by (simp add: ex_a2_def ex_defs)

lemma range0_3: "range0 3 = [0, 1, 2]"
  by (simp add: range0_def upt_rec)

lemma ex_run_loop: "run_loop ex_env lf [0, 1, 2] ex_a0 = Inr ex_a3"
  by (simp add: ex_find0 ex_apply0 ex_find1 ex_apply1 ex_find2 info_def ex_a3_def)

lemma ex_run: "run ex_env None ex_a0 = Inr (make_waterfall ex_a3, ex_a3, None)"
proof -
  have "blocks ex_a0 = []" "p_max_block_number (params ex_a0) = 3"
    by (simp_all add: ex_a0_def ex_params_def)
  then show ?thesis
    by (simp add: run_def write_caption_def range0_3 ex_run_loop del: run_loop.simps)
qed

lemma ex_init_pre: "init ex_env ex_params_pre ex_df = Inr ex_p2"
  by (simp add: init_def initial_def Let_def info_def CORRECT_MODES_def remove_unnecessary_dimensions_def
      apply_and_save_block_def from_block_def append_block_def make_block_def
      correct_facts_def make_global_block_def truediv_def
      ex_params_pre_def ex_p2_def ex_defs)

lemma ex_pre_selection:
  "pre_selection ex_env ''profit'' (p_pre_selected_blocks ex_params_pre) ex_df ex_gb0 =
     ([ex_b0, ex_b1], ex_df2, ex_gb2)"
  by (simp add: Let_def ex_params_pre_def ex_defs)

lemma ex_corrections:
  "corrections ex_env [(ex_b0, Discovered, 0), (ex_b1, Discovered, 1)]
     (remove_unnecessary_dimensions ex_env (initial ex_env ex_params ex_df)) = Inr ([7 / 10, 5 / 7], ex_a2)"
proof -
  have "cur_revenue (global_block ex_a1) / cur_revenue (global_block ex_a0) = 7 / 10"
    "cur_revenue (global_block ex_a2) / cur_revenue (global_block ex_a1) = 5 / 7"
    by (simp_all add: ex_a0_def ex_a1_def ex_a2_def ex_gb0_def ex_gb1_def ex_gb2_def)
  then show ?thesis
    by (simp add: ex_a0_initial ex_apply0 ex_apply1)
qed

subsection \<open>Conservation\<close>

text \<open>
  Claim C1. Under the mode DEL, a correction step that goes through has computed the new
  global block over the table without the block's rows, and the new global block plus the
  block gives back the old global block, up to the tolerance of \<open>float_eq\<close>, for current
  revenue, reference revenue, current profit and reference profit. When one of the four
  fails, the step raises \<^verbatim>\<open>AssertionError\<close> and leaves the object as it was, and so do
  apply-and-save and the run loop that reached it.
\<close>

theorem conservation_checked:
  assumes "correct_mode a = ''DEL''"
  shows "(\<forall>a'. correct_facts E b a = Inr a' \<longrightarrow>
            df a' = out_block E (df a) b \<and>
            global_block a' = make_global_block E a (df a') \<and>
            float_eq E (cur_revenue (global_block a') + cur_revenue b) (cur_revenue (global_block a)) \<and>
            float_eq E (ref_revenue (global_block a') + ref_revenue b) (ref_revenue (global_block a)) \<and>
            float_eq E (cur_profit (global_block a') + cur_profit b) (cur_profit (global_block a)) \<and>
            float_eq E (ref_profit (global_block a') + ref_profit b) (ref_profit (global_block a))) \<and>
         (\<not> conserved E (make_global_block E a (out_block E (df a) b)) b (global_block a) \<longrightarrow>
            correct_facts E b a = Inl (AssertionError, a) \<and>
            apply_and_save_block E b l i a =
              Inl (AssertionError, info (block_info i b (ratio_to_initial a)) a) \<and>
            (find_next_block E a i lf = Inr (Some b) \<longrightarrow>
               run_loop E lf (i # rest) a =
                 Inl (AssertionError, info (block_info i b (ratio_to_initial a)) a)))"
proof (intro conjI allI impI)
  fix a' assume c: "correct_facts E b a = Inr a'"
  note f = correct_facts_Inr [OF c]
  show "df a' = out_block E (df a) b" by (simp add: f(6))
  show g: "global_block a' = make_global_block E a (df a')" by (simp add: f(6))
  have "conserved E (global_block a') b (global_block a)"
    using f(3) by (simp add: f(6))
  then show "float_eq E (cur_revenue (global_block a') + cur_revenue b) (cur_revenue (global_block a))"
    "float_eq E (ref_revenue (global_block a') + ref_revenue b) (ref_revenue (global_block a))"
    "float_eq E (cur_profit (global_block a') + cur_profit b) (cur_profit (global_block a))"
    "float_eq E (ref_profit (global_block a') + ref_profit b) (ref_profit (global_block a))"
    by (simp_all add: conserved_def)
next
  assume v: "\<not> conserved E (make_global_block E a (out_block E (df a) b)) b (global_block a)"
  show "correct_facts E b a = Inl (AssertionError, a)"
    using assms v by (simp add: correct_facts_DEL_fails)
  let ?a1 = "info (block_info i b (ratio_to_initial a)) a"
  have "correct_facts E b ?a1 = Inl (AssertionError, ?a1)"
    using assms v by (intro correct_facts_DEL_fails) simp_all
  then show s: "apply_and_save_block E b l i a = Inl (AssertionError, ?a1)" for l
    by (simp add: apply_and_save_block_unfold)
  show "run_loop E lf (i # rest) a = Inl (AssertionError, ?a1)"
    if "find_next_block E a i lf = Inr (Some b)"
    using that s by simp
qed

theorem conservation_checked_witness:
  "correct_mode ex_a0 = ''DEL'' \<and>
   correct_facts ex_env ex_b0 ex_a0 = Inr ex_c0 \<and>
   float_eq ex_env (cur_revenue (global_block ex_c0) + cur_revenue ex_b0) (cur_revenue (global_block ex_a0)) \<and>
   float_eq ex_env (ref_revenue (global_block ex_c0) + ref_revenue ex_b0) (ref_revenue (global_block ex_a0)) \<and>
   float_eq ex_env (cur_profit (global_block ex_c0) + cur_profit ex_b0) (cur_profit (global_block ex_a0)) \<and>
   float_eq ex_env (ref_profit (global_block ex_c0) + ref_profit ex_b0) (ref_profit (global_block ex_a0)) \<and>
   \<not> conserved ex_env_keep (make_global_block ex_env_keep ex_a0 (out_block ex_env_keep (df ex_a0) ex_b0))
        ex_b0 (global_block ex_a0) \<and>
   correct_facts ex_env_keep ex_b0 ex_a0 = Inl (AssertionError, ex_a0) \<and>
   find_next_block ex_env_keep ex_a0 0 None = Inr (Some ex_b0) \<and>
   run_loop ex_env_keep None [0, 1, 2] ex_a0 = Inl (AssertionError, info (block_info 0 ex_b0 1) ex_a0)"
proof -
  have m: "correct_mode ex_a0 = ''DEL''" and r: "ratio_to_initial ex_a0 = 1"
    by (simp_all add: ex_a0_def)
  have v: "\<not> conserved ex_env_keep (make_global_block ex_env_keep ex_a0 (out_block ex_env_keep (df ex_a0) ex_b0))
        ex_b0 (global_block ex_a0)"
    by (simp add: conserved_def make_global_block_def ex_env_keep_def ex_a0_def ex_defs)
  have f: "find_next_block ex_env_keep ex_a0 0 None = Inr (Some ex_b0)"
    by (simp add: ex_env_keep_def ex_a0_def ex_defs)
  note ok = conservation_checked [OF m, where E = ex_env and b = ex_b0 and i = 0 and lf = None
      and l = Discovered and rest = "[1, 2]", THEN conjunct1, THEN spec, THEN mp, OF ex_correct0]
  note ko = conservation_checked [OF m, where E = ex_env_keep and b = ex_b0 and i = 0 and lf = None
      and l = Discovered and rest = "[1, 2]", THEN conjunct2, THEN mp, OF v]
  from ko f have "run_loop ex_env_keep None [0, 1, 2] ex_a0 =
      Inl (AssertionError, info (block_info 0 ex_b0 1) ex_a0)"
    by (simp add: r del: run_loop.simps)
  with m ex_correct0 ok ko v f show ?thesis
    by blast
qed

subsection \<open>Scaled contribution\<close>

text \<open>
  Claim C2. An applied block is appended to its target list as a Saved Block whose
  contribution is the block's raw contribution times \<open>ratio_to_initial\<close> as it stood before
  the step. Under ratio 1, which is the ratio of a freshly built object, that is the raw
  contribution; under ratio 0.7 it is the raw contribution times 0.7.
\<close>

theorem scaled_contribution:
  assumes "apply_and_save_block E b l i a = Inr a'"
  shows "target l a' = target l a @ [\<lparr>snapshot = b, sb_contrib_bps = contrib_bps b * ratio_to_initial a\<rparr>] \<and>
         sb_contrib_bps (last (target l a')) = contrib_bps b * ratio_to_initial a \<and>
         (ratio_to_initial a = 1 \<longrightarrow> sb_contrib_bps (last (target l a')) = contrib_bps b) \<and>
         (ratio_to_initial a = 7 / 10 \<longrightarrow> sb_contrib_bps (last (target l a')) = contrib_bps b * (7 / 10)) \<and>
         ratio_to_initial (remove_unnecessary_dimensions E (initial E p d)) = 1"
  using apply_and_save_block_Inr(12) [OF assms]
  by (simp add: scaled_def initial_def Let_def)

theorem scaled_contribution_witness:
  "apply_and_save_block ex_env ex_b0 Discovered 0 ex_a0 = Inr ex_a1 \<and>
   ratio_to_initial (remove_unnecessary_dimensions ex_env (initial ex_env ex_params ex_df)) = 1 \<and>
   ratio_to_initial ex_a0 = 1 \<and> contrib_bps ex_b0 = -50 \<and>
   sb_contrib_bps (last (target Discovered ex_a1)) = -50 \<and>
   apply_and_save_block ex_env ex_b1 Discovered 1 ex_a1 = Inr ex_a2 \<and>
   ratio_to_initial ex_a1 = 7 / 10 \<and> contrib_bps ex_b1 = -20 \<and>
   sb_contrib_bps (last (target Discovered ex_a2)) = -14"
proof -
  have r: "ratio_to_initial ex_a0 = 1" "contrib_bps ex_b0 = -50"
    "ratio_to_initial ex_a1 = 7 / 10" "contrib_bps ex_b1 = -20"
    by (simp_all add: ex_a0_def ex_a1_def ex_b0_def ex_b1_def)
  from scaled_contribution [OF ex_apply0, where p = ex_params and d = ex_df]
    scaled_contribution [OF ex_apply1, where p = ex_params and d = ex_df] r
  show ?thesis by (simp add: ex_apply0 ex_apply1)
qed

subsection \<open>Ratio composition\<close>

lemma corrections_ratio:
  "corrections E steps a = Inr (rs, a') \<Longrightarrow>
     length rs = length steps \<and> ratio_to_initial a' = ratio_to_initial a * prod_list rs"
proof (induction steps arbitrary: a rs)
  case Nil
  then show ?case by simp
next
  case (Cons s steps)
  obtain b l i where s: "s = (b, l, i)" by (cases s)
  from Cons.prems s obtain a1 rs' where
    a1: "apply_and_save_block E b l i a = Inr a1"
    and c: "corrections E steps a1 = Inr (rs', a')"
    and rs: "rs = cur_revenue (global_block a1) / cur_revenue (global_block a) # rs'"
    by (auto split: sum.splits)
  from Cons.IH [OF c] apply_and_save_block_Inr(8) [OF a1] show ?case
    by (simp add: rs)
qed

lemma foldl_times: "foldl (*) (r::real) rs = r * prod_list rs"
  by (induction rs arbitrary: r) (simp_all add: mult.assoc)

lemma pre_select_corrections:
  "pre_select E ibs i a = Inr a' \<Longrightarrow>
     \<exists>steps rs. length steps = length ibs \<and> corrections E steps a = Inr (rs, a')"
proof (induction ibs arbitrary: i a)
  case Nil
  then show ?case by simp
next
  case (Cons ib ibs)
  let ?b = "make_block E a (ib_keys ib) (ib_block_type ib)"
  from Cons.prems obtain a1 where
    a1: "apply_and_save_block E ?b PreSelected (i + 1) a = Inr a1"
    and r: "pre_select E ibs (i + 1) a1 = Inr a'"
    by (auto simp: Let_def split: sum.splits)
  from Cons.IH [OF r] obtain steps rs where
    "length steps = length ibs" "corrections E steps a1 = Inr (rs, a')" by blast
  then have "length ((?b, PreSelected, i + 1) # steps) = length (ib # ibs) \<and>
    corrections E ((?b, PreSelected, i + 1) # steps) a =
      Inr (cur_revenue (global_block a1) / cur_revenue (global_block a) # rs, a')"
    using a1 by simp
  then show ?case by blast
qed

lemma run_loop_corrections:
  "run_loop E lf is a = Inr a' \<Longrightarrow>
     \<exists>steps rs a''. length steps \<le> length is \<and> corrections E steps a = Inr (rs, a'') \<and>
        (a' = a'' \<or> (\<exists>i. a' = info (NoBlockFound i) a''))"
proof (induction "is" arbitrary: a)
  case Nil
  then show ?case
    by (intro exI [of _ "[]"] exI [of _ a]) auto
next
  case (Cons i "is")
  show ?case
  proof (cases "find_next_block E a i lf")
    case (Inl e)
    with Cons.prems show ?thesis by simp
  next
    case (Inr r)
    show ?thesis
    proof (cases r)
      case None
      with Inr Cons.prems have "a' = info (NoBlockFound i) a" by simp
      then show ?thesis
        by (intro exI [of _ "[]"] exI [of _ a]) auto
    next
      case (Some b)
      with Inr Cons.prems obtain a1 where
        a1: "apply_and_save_block E b Discovered i a = Inr a1" and r: "run_loop E lf is a1 = Inr a'"
        by (auto split: sum.splits)
      from Cons.IH [OF r] obtain steps rs a'' where
        l: "length steps \<le> length is" and c: "corrections E steps a1 = Inr (rs, a'')"
        and e: "a' = a'' \<or> (\<exists>i. a' = info (NoBlockFound i) a'')" by blast
      have "length ((b, Discovered, i) # steps) \<le> length (i # is) \<and>
        corrections E ((b, Discovered, i) # steps) a =
          Inr (cur_revenue (global_block a1) / cur_revenue (global_block a) # rs, a'')"
        using a1 c l by simp
      with e show ?thesis by blast
    qed
  qed
qed

lemma corrections_count:
  "corrections E steps a = Inr (rs, a') \<Longrightarrow>
     length (pre_selected_blocks a') + length (blocks a') =
       length (pre_selected_blocks a) + length (blocks a) + length steps"
proof (induction steps arbitrary: a rs)
  case Nil
  then show ?case by simp
next
  case (Cons s steps)
  obtain b l i where s: "s = (b, l, i)" by (cases s)
  from Cons.prems s obtain a1 rs' where
    a1: "apply_and_save_block E b l i a = Inr a1"
    and c: "corrections E steps a1 = Inr (rs', a')"
    by (auto split: sum.splits)
  have "length (pre_selected_blocks a1) + length (blocks a1) =
          length (pre_selected_blocks a) + length (blocks a) + 1"
    using apply_and_save_block_Inr(12) [OF a1] apply_and_save_block_other_list [OF a1]
    by (cases l) (simp_all add: target_def)
  with Cons.IH [OF c] show ?case by simp
qed

lemma corrections_append:
  "corrections E s1 a = Inr (r1, a1) \<Longrightarrow> corrections E s2 a1 = Inr (r2, a2) \<Longrightarrow>
     corrections E (s1 @ s2) a = Inr (r1 @ r2, a2)"
proof (induction s1 arbitrary: a r1)
  case Nil
  then show ?case by simp
next
  case (Cons s s1)
  obtain b l i where s: "s = (b, l, i)" by (cases s)
  from Cons.prems(1) s obtain a0 r0 where
    a0: "apply_and_save_block E b l i a = Inr a0"
    and c: "corrections E s1 a0 = Inr (r0, a1)"
    and r1: "r1 = cur_revenue (global_block a0) / cur_revenue (global_block a) # r0"
    by (auto split: sum.splits)
  from Cons.IH [OF c Cons.prems(2)] show ?case
    by (simp add: s a0 r1)
qed

lemma program_corrections:
  assumes i: "init E p d = Inr a0" and r: "run E lf a0 = Inr (w, a1, lf1)"
  shows "\<exists>steps rs a2. corrections E steps (remove_unnecessary_dimensions E (initial E p d)) = Inr (rs, a2) \<and>
           length steps = length (pre_selected_blocks a1) + length (blocks a1) \<and>
           ratio_to_initial a1 = ratio_to_initial a2"
proof -
  let ?s = "remove_unnecessary_dimensions E (initial E p d)"
  from i have "pre_select E (p_pre_selected_blocks p)
      (- int (length (p_pre_selected_blocks p)) - 1) ?s = Inr a0"
    by (auto simp: init_def split: if_splits sum.splits)
  from pre_select_corrections [OF this] obtain s1 r1 where
    c1: "corrections E s1 ?s = Inr (r1, a0)" by blast
  from r have "run_loop E lf1 (range0 (p_max_block_number (params a0))) a0 = Inr a1"
    by (auto simp: run_def Let_def split: if_splits sum.splits)
  from run_loop_corrections [OF this] obtain s2 r2 a2 where
    c2: "corrections E s2 a0 = Inr (r2, a2)"
    and e: "a1 = a2 \<or> (\<exists>i. a1 = info (NoBlockFound i) a2)" by blast
  note c = corrections_append [OF c1 c2]
  from corrections_count [OF c] have "length (s1 @ s2) = length (pre_selected_blocks a2) + length (blocks a2)"
    by simp
  with e have "length (s1 @ s2) = length (pre_selected_blocks a1) + length (blocks a1)"
    by auto
  moreover from e have "ratio_to_initial a1 = ratio_to_initial a2" by auto
  ultimately show ?thesis using c by blast
qed

text \<open>
  Claim C3. After the correction steps of any sequence of applied blocks, starting from a
  freshly built object, \<open>ratio_to_initial\<close> is the product of the steps' quotients of new by
  old current revenue of the global block, multiplied up from 1 in the order of the steps.
  The constructor followed by \<^verbatim>\<open>run\<close> is such a sequence, with one step for each block of
  the pre-selected and of the discovered list.
\<close>

theorem ratio_composition:
  "(corrections E steps (remove_unnecessary_dimensions E (initial E p d)) = Inr (rs, a) \<longrightarrow>
      length rs = length steps \<and> ratio_to_initial a = prod_list rs \<and>
      ratio_to_initial a = foldl (*) 1 rs) \<and>
   (init E p d = Inr a0 \<and> run E lf a0 = Inr (w, a1, lf1) \<longrightarrow>
      (\<exists>steps rs a2.
         corrections E steps (remove_unnecessary_dimensions E (initial E p d)) = Inr (rs, a2) \<and>
         length rs = length (pre_selected_blocks a1) + length (blocks a1) \<and>
         ratio_to_initial a1 = prod_list rs))"
proof (intro conjI impI)
  assume c: "corrections E steps (remove_unnecessary_dimensions E (initial E p d)) = Inr (rs, a)"
  from corrections_ratio [OF c]
  show "length rs = length steps" "ratio_to_initial a = prod_list rs"
    "ratio_to_initial a = foldl (*) 1 rs"
    by (simp_all add: foldl_times)
next
  assume "init E p d = Inr a0 \<and> run E lf a0 = Inr (w, a1, lf1)"
  then have "init E p d = Inr a0" "run E lf a0 = Inr (w, a1, lf1)" by simp_all
  from program_corrections [OF this] obtain steps rs a2 where
    c: "corrections E steps (remove_unnecessary_dimensions E (initial E p d)) = Inr (rs, a2)"
    and l: "length steps = length (pre_selected_blocks a1) + length (blocks a1)"
    and r: "ratio_to_initial a1 = ratio_to_initial a2"
    by blast
  from corrections_ratio [OF c] l r
  have "length rs = length (pre_selected_blocks a1) + length (blocks a1) \<and>
        ratio_to_initial a1 = prod_list rs" by simp
  with c show "\<exists>steps rs a2.
         corrections E steps (remove_unnecessary_dimensions E (initial E p d)) = Inr (rs, a2) \<and>
         length rs = length (pre_selected_blocks a1) + length (blocks a1) \<and>
         ratio_to_initial a1 = prod_list rs" by blast
qed

theorem ratio_composition_witness:
  "corrections ex_env [(ex_b0, Discovered, 0), (ex_b1, Discovered, 1)]
     (remove_unnecessary_dimensions ex_env (initial ex_env ex_params ex_df)) = Inr ([7 / 10, 5 / 7], ex_a2) \<and>
   ratio_to_initial ex_a2 = prod_list [7 / 10, 5 / 7] \<and> ratio_to_initial ex_a2 = 1 / 2 \<and>
   init ex_env ex_params ex_df = Inr ex_a0 \<and>
   run ex_env None ex_a0 = Inr (make_waterfall ex_a3, ex_a3, None) \<and>
   length (pre_selected_blocks ex_a3) + length (blocks ex_a3) = 2 \<and>
   ratio_to_initial ex_a3 = 1 / 2"
proof -
  note t = ratio_composition [where E = ex_env and p = ex_params and d = ex_df
      and steps = "[(ex_b0, Discovered, 0), (ex_b1, Discovered, 1)]" and rs = "[7 / 10, 5 / 7]"
      and a = ex_a2 and ?a0.0 = ex_a0 and lf = None and w = "make_waterfall ex_a3"
      and ?a1.0 = ex_a3 and ?lf1.0 = None]
  from t [THEN conjunct1, THEN mp, OF ex_corrections]
  have "ratio_to_initial ex_a2 = prod_list [7 / 10, 5 / 7]" by simp
  moreover have "ratio_to_initial ex_a2 = 1 / 2" "ratio_to_initial ex_a3 = 1 / 2"
    "length (pre_selected_blocks ex_a3) + length (blocks ex_a3) = 2"
    by (simp_all add: ex_a2_def ex_a3_def)
  ultimately show ?thesis
    using ex_corrections ex_init ex_run by simp
qed

subsection \<open>Dimension pruning\<close>

lemma pruned_prune: "pruned E (remove_unnecessary_dimensions E a)"
  by (simp add: pruned_def prune_dims list_all_iff)

lemma pruned_apply: "apply_and_save_block E b l i a = Inr a' \<Longrightarrow> pruned E a'"
  by (auto simp: apply_and_save_block_unfold pruned_prune split: sum.splits)

lemma pruned_pre_select: "pre_select E ibs i a = Inr a' \<Longrightarrow> pruned E a \<Longrightarrow> pruned E a'"
  by (induction ibs arbitrary: i a) (auto simp: Let_def pruned_apply split: sum.splits)

lemma pruned_init: "init E p d = Inr a \<Longrightarrow> pruned E a"
  by (auto simp: init_def pruned_prune split: if_splits sum.splits dest: pruned_pre_select)

lemma pruned_run_loop: "run_loop E lf is a = Inr a' \<Longrightarrow> pruned E a \<Longrightarrow> pruned E a'"
proof (induction "is" arbitrary: a)
  case Nil
  then show ?case by simp
next
  case (Cons i "is")
  show ?case
  proof (cases "find_next_block E a i lf")
    case (Inl e)
    with Cons.prems show ?thesis by simp
  next
    case (Inr r)
    show ?thesis
    proof (cases r)
      case None
      with Inr Cons.prems show ?thesis by (auto simp: pruned_def)
    next
      case (Some b)
      with Inr Cons.prems obtain a1 where
        a1: "apply_and_save_block E b Discovered i a = Inr a1" and r: "run_loop E lf is a1 = Inr a'"
        by (auto split: sum.splits)
      from Cons.IH [OF r pruned_apply [OF a1]] show ?thesis .
    qed
  qed
qed

lemma pruned_run: "run E lf a = Inr (w, a', lf') \<Longrightarrow> pruned E a \<Longrightarrow> pruned E a'"
  by (auto simp: run_def Let_def split: if_splits sum.splits dest: pruned_run_loop)

text \<open>
  Claim C7. After construction, after every applied block (whose last action is the
  pruning that follows its correction step) and after \<^verbatim>\<open>run\<close>, no tracked dimension has
  exactly one distinct value in the working table. Pruning keeps exactly the tracked
  dimensions whose count on the current table is not one, and leaves the table alone.
\<close>

theorem no_singleton_dimension:
  "(init E p d = Inr a \<longrightarrow> (\<forall>c \<in> set (dims a). n_unique E (df a) c \<noteq> 1)) \<and>
   (apply_and_save_block E b l i a0 = Inr a1 \<longrightarrow> (\<forall>c \<in> set (dims a1). n_unique E (df a1) c \<noteq> 1)) \<and>
   (init E p d = Inr a \<and> run E lf a = Inr (w, a2, lf2) \<longrightarrow>
      (\<forall>c \<in> set (dims a2). n_unique E (df a2) c \<noteq> 1)) \<and>
   dims (remove_unnecessary_dimensions E a0) = filter (\<lambda>c. n_unique E (df a0) c \<noteq> 1) (dims a0) \<and>
   df (remove_unnecessary_dimensions E a0) = df a0"
  using pruned_init [of E p d a] pruned_apply [of E b l i a0 a1] pruned_run [of E lf a w a2 lf2]
  by (auto simp: pruned_def list_all_iff prune_dims)

theorem no_singleton_dimension_witness:
  "init ex_env ex_params ex_df = Inr ex_a0 \<and> dims ex_a0 = [''Region'', ''Product''] \<and>
   n_unique ex_env (df ex_a0) ''Region'' = 2 \<and> n_unique ex_env (df ex_a0) ''Product'' = 2 \<and>
   apply_and_save_block ex_env ex_b0 Discovered 0 ex_a0 = Inr ex_a1 \<and>
   n_unique ex_env (df ex_a1) ''Region'' = 1 \<and> dims ex_a1 = [''Product''] \<and>
   n_unique ex_env (df ex_a1) ''Product'' = 2 \<and>
   run ex_env None ex_a0 = Inr (make_waterfall ex_a3, ex_a3, None) \<and>
   n_unique ex_env (df ex_a3) ''Product'' = 1 \<and> dims ex_a3 = []"
proof -
  have "dims ex_a0 = [''Region'', ''Product'']" "dims ex_a1 = [''Product'']" "dims ex_a3 = []"
    "n_unique ex_env (df ex_a0) ''Region'' = 2" "n_unique ex_env (df ex_a0) ''Product'' = 2"
    "n_unique ex_env (df ex_a1) ''Region'' = 1" "n_unique ex_env (df ex_a1) ''Product'' = 2"
    "n_unique ex_env (df ex_a3) ''Product'' = 1"
    by (simp_all add: ex_a0_def ex_a1_def ex_a2_def ex_a3_def ex_defs)
  with no_singleton_dimension [where E = ex_env and p = ex_params and d = ex_df and a = ex_a0
      and b = ex_b0 and l = Discovered and i = 0 and ?a0.0 = ex_a0 and ?a1.0 = ex_a1
      and lf = None and w = "make_waterfall ex_a3" and ?a2.0 = ex_a3 and ?lf2.0 = None]
    ex_init ex_apply0 ex_run
  show ?thesis by simp
qed

subsection \<open>Pre-selected blocks\<close>

lemma block_indices_append [simp]: "block_indices (xs @ ys) = block_indices xs @ block_indices ys"
  by (induction xs rule: block_indices.induct) simp_all

lemma block_indices_ignored [simp]: "block_indices (map DimensionIgnored cs) = []"
  by (induction cs) simp_all

lemma no_block_indices_append [simp]:
  "no_block_indices (xs @ ys) = no_block_indices xs @ no_block_indices ys"
  by (induction xs rule: no_block_indices.induct) simp_all

lemma no_block_indices_ignored [simp]: "no_block_indices (map DimensionIgnored cs) = []"
  by (induction cs) simp_all

lemma pre_select_refines:
  "pre_select E ibs i a = Inr a' \<Longrightarrow>
     (case pre_selection E (p_profit_measure (params a)) ibs (df a) (global_block a) of
        (bs, dn, gn) \<Rightarrow>
          map snapshot (pre_selected_blocks a') = map snapshot (pre_selected_blocks a) @ bs \<and>
          df a' = dn \<and> global_block a' = gn) \<and>
     block_indices (logged a') = block_indices (logged a) @ [i + 1 .. i + int (length ibs)] \<and>
     blocks a' = blocks a"
proof (induction ibs arbitrary: i a)
  case Nil
  then show ?case by simp
next
  case (Cons ib ibs)
  let ?b = "make_block E a (ib_keys ib) (ib_block_type ib)"
  from Cons.prems obtain a1 where
    a1: "apply_and_save_block E ?b PreSelected (i + 1) a = Inr a1"
    and r: "pre_select E ibs (i + 1) a1 = Inr a'"
    by (auto simp: Let_def split: sum.splits)
  note f = apply_and_save_block_Inr [OF a1]
  note ih = Cons.IH [OF r]
  have p: "pre_selected_blocks a1 = pre_selected_blocks a @ [scaled ?b (ratio_to_initial a)]"
    using f(12) by (simp add: target_def)
  have b: "blocks a1 = blocks a"
    using apply_and_save_block_other_list(2) [OF a1] by simp
  have g: "global_block a1 = algo_block E (df a1) (p_profit_measure (params a)) None None None"
    using f(7) f(6) by (simp add: make_global_block_def)
  have u: "[i + 1 .. i + int (length (ib # ibs))] = (i + 1) # [i + 1 + 1 .. i + 1 + int (length ibs)]"
    by (subst upto_rec1) (simp_all add: algebra_simps)
  have li: "block_indices (logged a1) = block_indices (logged a) @ [i + 1]"
    by (simp add: f(14) block_info_def)
  show ?case
  proof (intro conjI)
    show "blocks a' = blocks a" using ih b by simp
    show "block_indices (logged a') = block_indices (logged a) @ [i + 1 .. i + int (length (ib # ibs))]"
      using ih li by (simp only: u) simp
    show "case pre_selection E (p_profit_measure (params a)) (ib # ibs) (df a) (global_block a) of
        (bs, dn, gn) \<Rightarrow>
          map snapshot (pre_selected_blocks a') = map snapshot (pre_selected_blocks a) @ bs \<and>
          df a' = dn \<and> global_block a' = gn"
      using ih p g f(6) f(9)
      by (auto simp: Let_def make_block_def scaled_def split: prod.splits)
  qed
qed

text \<open>
  Claim C8. The constructor applies the pre-selected blocks in the order supplied: the
  snapshots in the pre-selected list are, in order, the blocks built for each key-set over
  the table and the global block left by the previous one; the table and the global block of
  the object are the last residual; the indices of the block records logged run from minus
  the number of pre-selected blocks up to -1; and the discovered list is still empty.
\<close>

theorem pre_selected_in_order:
  assumes "init E p d = Inr a"
  shows "(case pre_selection E (p_profit_measure p) (p_pre_selected_blocks p) d
                (algo_block E d (p_profit_measure p) None None None) of
            (bs, dn, gn) \<Rightarrow>
              map snapshot (pre_selected_blocks a) = bs \<and> df a = dn \<and> global_block a = gn) \<and>
         block_indices (logged a) = [- int (length (p_pre_selected_blocks p)) .. - 1] \<and>
         blocks a = []"
proof -
  let ?a0 = "remove_unnecessary_dimensions E (initial E p d)"
  from assms have r: "pre_select E (p_pre_selected_blocks p)
      (- int (length (p_pre_selected_blocks p)) - 1) ?a0 = Inr a"
    by (auto simp: init_def split: if_splits sum.splits)
  have "block_indices (logged ?a0) = []"
    by (simp add: prune_logged)
  with pre_select_refines [OF r] show ?thesis
    by simp
qed

theorem pre_selected_in_order_witness:
  "init ex_env ex_params_pre ex_df = Inr ex_p2 \<and>
   pre_selection ex_env ''profit'' (p_pre_selected_blocks ex_params_pre) ex_df ex_gb0 =
     ([ex_b0, ex_b1], ex_df2, ex_gb2) \<and>
   map snapshot (pre_selected_blocks ex_p2) = [ex_b0, ex_b1] \<and>
   df ex_p2 = ex_df2 \<and> global_block ex_p2 = ex_gb2 \<and>
   block_indices (logged ex_p2) = [-2, -1] \<and> blocks ex_p2 = []"
proof -
  have p: "p_profit_measure ex_params_pre = ''profit''" "length (p_pre_selected_blocks ex_params_pre) = 2"
    "algo_block ex_env ex_df ''profit'' None None None = ex_gb0"
    by (simp_all add: ex_params_pre_def ex_defs)
  have u: "[- 2 .. - 1] = [-2, -1 :: int]"
    by (simp add: upto_rec1)
  from pre_selected_in_order [OF ex_init_pre] show ?thesis
    by (simp add: p u ex_pre_selection ex_init_pre)
qed

subsection \<open>Positive revenue before the division\<close>

text \<open>
  Claim C9. A correction step that goes through has found the current revenue of both the
  old and the new global block strictly positive, and has multiplied the ratio by their
  quotient. Under the mode DEL a non-positive current revenue of either makes the step
  raise \<^verbatim>\<open>AssertionError\<close> with the object unchanged, and the step never raises
  \<^verbatim>\<open>ZeroDivisionError\<close>.
\<close>

theorem revenue_positive_before_division:
  "(correct_facts E b a = Inr a' \<longrightarrow>
      0 < cur_revenue (global_block a) \<and> 0 < cur_revenue (global_block a') \<and>
      ratio_to_initial a' =
        ratio_to_initial a * (cur_revenue (global_block a') / cur_revenue (global_block a))) \<and>
   (correct_mode a = ''DEL'' \<and>
      (cur_revenue (global_block a) \<le> 0 \<or>
       cur_revenue (make_global_block E a (out_block E (df a) b)) \<le> 0) \<longrightarrow>
      correct_facts E b a = Inl (AssertionError, a)) \<and>
   correct_facts E b a \<noteq> Inl (ZeroDivisionError, a'')"
proof (intro conjI impI)
  assume c: "correct_facts E b a = Inr a'"
  note f = correct_facts_Inr [OF c]
  show "0 < cur_revenue (global_block a)" by (rule f(4))
  show "0 < cur_revenue (global_block a')" using f(5) by (simp add: f(6))
  show "ratio_to_initial a' =
        ratio_to_initial a * (cur_revenue (global_block a') / cur_revenue (global_block a))"
    by (simp add: f(6))
next
  assume "correct_mode a = ''DEL'' \<and>
      (cur_revenue (global_block a) \<le> 0 \<or>
       cur_revenue (make_global_block E a (out_block E (df a) b)) \<le> 0)"
  then show "correct_facts E b a = Inl (AssertionError, a)"
    by (intro correct_facts_DEL_fails) auto
next
  show "correct_facts E b a \<noteq> Inl (ZeroDivisionError, a'')"
    using correct_facts_error [of E b a ZeroDivisionError a''] by auto
qed

theorem revenue_positive_before_division_witness:
  "correct_facts ex_env ex_b0 ex_a0 = Inr ex_c0 \<and>
   cur_revenue (global_block ex_a0) = 1000000 \<and> cur_revenue (global_block ex_c0) = 700000 \<and>
   ratio_to_initial ex_a0 = 1 \<and> ratio_to_initial ex_c0 = 7 / 10 \<and>
   correct_mode ex_a2 = ''DEL'' \<and>
   cur_revenue (make_global_block ex_env ex_a2 (out_block ex_env (df ex_a2) ex_b_us)) = 0 \<and>
   correct_facts ex_env ex_b_us ex_a2 = Inl (AssertionError, ex_a2)"
proof -
  have r: "cur_revenue (global_block ex_a0) = 1000000" "cur_revenue (global_block ex_c0) = 700000"
    "ratio_to_initial ex_a0 = 1" "correct_mode ex_a2 = ''DEL''"
    "cur_revenue (make_global_block ex_env ex_a2 (out_block ex_env (df ex_a2) ex_b_us)) = 0"
    by (simp_all add: make_global_block_def ex_a0_def ex_c0_def ex_a2_def ex_b_us_def ex_defs)
  from revenue_positive_before_division [where E = ex_env and b = ex_b0 and a = ex_a0 and a' = ex_c0
      and a'' = ex_a0]
    revenue_positive_before_division [where E = ex_env and b = ex_b_us and a = ex_a2 and a' = ex_a2
      and a'' = ex_a2] r ex_correct0
  show ?thesis by simp
qed

subsection \<open>Atomicity of apply-and-save\<close>

text \<open>
  Claim C10. When apply-and-save fails, both block lists, the working table, the global
  block, the ratio and the tracked dimensions are as before the call; only the diagnostic
  record has been logged. A stale parent, a conservation mismatch or a non-positive current
  revenue makes it fail so. When it succeeds the Saved Block is the last of its target list.
\<close>

theorem apply_and_save_block_atomic:
  "(apply_and_save_block E b l i a = Inl (e, a') \<longrightarrow>
      pre_selected_blocks a' = pre_selected_blocks a \<and> blocks a' = blocks a \<and>
      df a' = df a \<and> global_block a' = global_block a \<and>
      ratio_to_initial a' = ratio_to_initial a \<and> dims a' = dims a) \<and>
   (parent b \<noteq> Some (global_block a) \<or>
    correct_mode a = ''DEL'' \<and>
      (\<not> conserved E (make_global_block E a (out_block E (df a) b)) b (global_block a) \<or>
       cur_revenue (global_block a) \<le> 0 \<or>
       cur_revenue (make_global_block E a (out_block E (df a) b)) \<le> 0) \<longrightarrow>
      apply_and_save_block E b l i a =
        Inl (AssertionError, info (block_info i b (ratio_to_initial a)) a)) \<and>
   (apply_and_save_block E b l i a = Inr a'' \<longrightarrow>
      target l a'' = target l a @ [scaled b (ratio_to_initial a)])"
proof (intro conjI impI)
  assume f: "apply_and_save_block E b l i a = Inl (e, a')"
  have a': "a' = info (block_info i b (ratio_to_initial a)) a"
    by (rule apply_and_save_block_Inl(1) [OF f])
  show "pre_selected_blocks a' = pre_selected_blocks a" "blocks a' = blocks a"
    "df a' = df a" "global_block a' = global_block a"
    "ratio_to_initial a' = ratio_to_initial a" "dims a' = dims a"
    by (simp_all add: a')
next
  let ?a1 = "info (block_info i b (ratio_to_initial a)) a"
  assume h: "parent b \<noteq> Some (global_block a) \<or>
    correct_mode a = ''DEL'' \<and>
      (\<not> conserved E (make_global_block E a (out_block E (df a) b)) b (global_block a) \<or>
       cur_revenue (global_block a) \<le> 0 \<or>
       cur_revenue (make_global_block E a (out_block E (df a) b)) \<le> 0)"
  have "correct_facts E b ?a1 = Inl (AssertionError, ?a1)"
  proof (cases "parent b \<noteq> Some (global_block a)")
    case True
    then show ?thesis by (intro correct_facts_stale) simp
  next
    case False
    with h show ?thesis by (intro correct_facts_DEL_fails) auto
  qed
  then show "apply_and_save_block E b l i a = Inl (AssertionError, ?a1)"
    by (simp add: apply_and_save_block_unfold)
next
  assume "apply_and_save_block E b l i a = Inr a''"
  then show "target l a'' = target l a @ [scaled b (ratio_to_initial a)]"
    by (rule apply_and_save_block_Inr(12))
qed

theorem apply_and_save_block_atomic_witness:
  "parent ex_b0 \<noteq> Some (global_block ex_a1) \<and>
   apply_and_save_block ex_env ex_b0 Discovered 2 ex_a1 =
     Inl (AssertionError, info (block_info 2 ex_b0 (ratio_to_initial ex_a1)) ex_a1) \<and>
   pre_selected_blocks (info (block_info 2 ex_b0 (ratio_to_initial ex_a1)) ex_a1) = pre_selected_blocks ex_a1 \<and>
   blocks (info (block_info 2 ex_b0 (ratio_to_initial ex_a1)) ex_a1) = blocks ex_a1 \<and>
   df (info (block_info 2 ex_b0 (ratio_to_initial ex_a1)) ex_a1) = df ex_a1 \<and>
   global_block (info (block_info 2 ex_b0 (ratio_to_initial ex_a1)) ex_a1) = global_block ex_a1 \<and>
   ratio_to_initial (info (block_info 2 ex_b0 (ratio_to_initial ex_a1)) ex_a1) = ratio_to_initial ex_a1 \<and>
   apply_and_save_block ex_env ex_b0 Discovered 0 ex_a0 = Inr ex_a1 \<and>
   target Discovered ex_a1 = target Discovered ex_a0 @ [scaled ex_b0 (ratio_to_initial ex_a0)]"
proof -
  have s: "parent ex_b0 \<noteq> Some (global_block ex_a1)"
    by (simp add: ex_b0_def ex_a1_def ex_gb0_def ex_gb1_def)
  from apply_and_save_block_atomic [where E = ex_env and b = ex_b0 and l = Discovered and i = 2
      and a = ex_a1 and e = AssertionError
      and a' = "info (block_info 2 ex_b0 (ratio_to_initial ex_a1)) ex_a1" and a'' = ex_a1]
    apply_and_save_block_atomic [where E = ex_env and b = ex_b0 and l = Discovered and i = 0
      and a = ex_a0 and e = AssertionError and a' = ex_a0 and a'' = ex_a1] s ex_apply0
  show ?thesis by simp
qed

subsection \<open>The run loop\<close>

lemma run_loop_shape:
  "run_loop E lf ixs a = Inr a' \<Longrightarrow>
     \<exists>k recs. k \<le> length ixs \<and> length (blocks a') = length (blocks a) + k \<and>
       logged a' = logged a @ recs \<and>
       no_block_indices recs = (if k < length ixs then [ixs ! k] else []) \<and>
       (k < length ixs \<longrightarrow>
          (\<exists>a1. find_next_block E a1 (ixs ! k) lf = Inr None \<and> a' = info (NoBlockFound (ixs ! k)) a1))"
proof (induction ixs arbitrary: a)
  case Nil
  then show ?case by simp
next
  case (Cons i ixs)
  show ?case
  proof (cases "find_next_block E a i lf")
    case (Inl e)
    with Cons.prems show ?thesis by simp
  next
    case (Inr r)
    show ?thesis
    proof (cases r)
      case None
      with Inr Cons.prems have a': "a' = info (NoBlockFound i) a" by simp
      show ?thesis
      proof (intro exI [of _ "0::nat"] exI [of _ "[NoBlockFound i]"] conjI impI)
        show "\<exists>a1. find_next_block E a1 ((i # ixs) ! 0) lf = Inr None \<and>
                 a' = info (NoBlockFound ((i # ixs) ! 0)) a1"
          using Inr None a' by auto
      qed (simp_all add: a')
    next
      case (Some b)
      with Inr Cons.prems obtain a1 where
        a1: "apply_and_save_block E b Discovered i a = Inr a1" and r: "run_loop E lf ixs a1 = Inr a'"
        by (auto split: sum.splits)
      note f = apply_and_save_block_Inr [OF a1]
      from Cons.IH [OF r] obtain k recs where
        k: "k \<le> length ixs" and b: "length (blocks a') = length (blocks a1) + k"
        and l: "logged a' = logged a1 @ recs"
        and n: "no_block_indices recs = (if k < length ixs then [ixs ! k] else [])"
        and e: "k < length ixs \<longrightarrow>
          (\<exists>a2. find_next_block E a2 (ixs ! k) lf = Inr None \<and> a' = info (NoBlockFound (ixs ! k)) a2)"
        by blast
      let ?recs = "block_info i b (ratio_to_initial a)
                   # map DimensionIgnored (filter (\<lambda>c. n_unique E (df a1) c = 1) (dims a)) @ recs"
      have b1: "length (blocks a1) = length (blocks a) + 1"
        using f(12) by (simp add: target_def)
      show ?thesis
      proof (intro exI [of _ "Suc k"] exI [of _ ?recs] conjI impI)
        show "Suc k \<le> length (i # ixs)" using k by simp
        show "length (blocks a') = length (blocks a) + Suc k" using b b1 by simp
        show "logged a' = logged a @ ?recs" using l f(14) by simp
        show "no_block_indices ?recs = (if Suc k < length (i # ixs) then [(i # ixs) ! Suc k] else [])"
          using n by (simp add: block_info_def)
        show "\<exists>a1. find_next_block E a1 ((i # ixs) ! Suc k) lf = Inr None \<and>
                 a' = info (NoBlockFound ((i # ixs) ! Suc k)) a1"
          if "Suc k < length (i # ixs)"
          using that e by simp
      qed
    qed
  qed
qed

lemma range0_length [simp]: "length (range0 n) = nat n"
  by (simp add: range0_def)

lemma range0_nth: "k < nat n \<Longrightarrow> range0 n ! k = int k"
  by (simp add: range0_def)

lemma run_loop_raises:
  "run_loop E lf ixs a = Inl (e, a') \<Longrightarrow>
     \<exists>new. blocks a' = blocks a @ new \<and> length new < length ixs"
proof (induction ixs arbitrary: a)
  case Nil
  then show ?case by simp
next
  case (Cons i ixs)
  show ?case
  proof (cases "find_next_block E a i lf")
    case (Inl x)
    with Cons.prems have "a' = a" by simp
    then show ?thesis by simp
  next
    case (Inr r)
    show ?thesis
    proof (cases r)
      case None
      with Inr Cons.prems show ?thesis by simp
    next
      case (Some b)
      show ?thesis
      proof (cases "apply_and_save_block E b Discovered i a")
        case (Inl err)
        with Inr Some Cons.prems have f: "apply_and_save_block E b Discovered i a = Inl (e, a')"
          by simp
        from apply_and_save_block_Inl(1) [OF f] show ?thesis by simp
      next
        case a1: (Inr a1)
        with Inr Some Cons.prems have r: "run_loop E lf ixs a1 = Inl (e, a')" by simp
        from Cons.IH [OF r] obtain new where
          n: "blocks a' = blocks a1 @ new" "length new < length ixs" by blast
        have "blocks a1 = blocks a @ [scaled b (ratio_to_initial a)]"
          using apply_and_save_block_Inr(12) [OF a1] by (simp add: target_def)
        with n have "blocks a' = blocks a @ (scaled b (ratio_to_initial a) # new) \<and>
            length (scaled b (ratio_to_initial a) # new) < length (i # ixs)" by simp
        then show ?thesis by blast
      qed
    qed
  qed
qed

lemma ex_new_records: "no_block_indices (new_records ex_a0 ex_a3) = [2]"
  by (simp add: new_records_def ex_a0_def ex_a2_def ex_a3_def)

lemma ex_keep_run: "run ex_env_keep None ex_a0 = Inl (AssertionError, ex_k0, None)"
proof -
  have m: "correct_mode ex_a0 = ''DEL''" "ratio_to_initial ex_a0 = 1" "blocks ex_a0 = []"
    "p_max_block_number (params ex_a0) = 3"
    by (simp_all add: ex_a0_def ex_params_def)
  have k: "info (block_info 0 ex_b0 1) ex_a0 = ex_k0"
    by (simp add: info_def block_info_def ex_k0_def ex_a0_def ex_b0_def)
  have v: "\<not> conserved ex_env_keep (make_global_block ex_env_keep ex_a0 (out_block ex_env_keep (df ex_a0) ex_b0))
        ex_b0 (global_block ex_a0)"
    by (simp add: conserved_def make_global_block_def ex_env_keep_def ex_a0_def ex_defs)
  have f: "find_next_block ex_env_keep ex_a0 0 None = Inr (Some ex_b0)"
    by (simp add: ex_env_keep_def ex_a0_def ex_defs)
  have c: "log_file_caption ex_env_keep ex_a0 = None"
    by (simp add: ex_env_keep_def ex_env_def)
  have "correct_facts ex_env_keep ex_b0 (info (block_info 0 ex_b0 1) ex_a0) =
          Inl (AssertionError, info (block_info 0 ex_b0 1) ex_a0)"
    using m v by (intro correct_facts_DEL_fails) simp_all
  then have "apply_and_save_block ex_env_keep ex_b0 Discovered 0 ex_a0 = Inl (AssertionError, ex_k0)"
    by (simp add: apply_and_save_block_unfold m k)
  with f have "run_loop ex_env_keep None [0, 1, 2] ex_a0 = Inl (AssertionError, ex_k0)"
    by simp
  then show ?thesis
    by (simp add: run_def write_caption_def range0_3 m c del: run_loop.simps)
qed

text \<open>
  Claim C4. \<open>N\<close> is \<^verbatim>\<open>max_block_number\<close>, a count of blocks, so \<open>0 \<le> N\<close>. A call of \<^verbatim>\<open>run\<close>
  leaves the discovered list with at most \<open>N\<close> blocks appended, whether it returns or
  raises, and a run that returns hands that list to the waterfall. A run that returns has
  appended fewer than \<open>N\<close> exactly when it logged that no block was found, which it does
  once, at the index equal to the number of blocks appended, upon the strategy returning no
  block there; and a strategy returning no block makes the loop return, with that record
  logged, rather than raise.
\<close>

theorem run_bounded:
  assumes N: "0 \<le> p_max_block_number (params a)"
  shows "(run E lf a = Inl (e, a1, lf1) \<longrightarrow>
            (\<exists>new. blocks a1 = blocks a @ new \<and>
                   int (length new) \<le> p_max_block_number (params a))) \<and>
         (run E lf a = Inr (w, a', lf') \<longrightarrow>
            blocks a = [] \<and> wf_blocks w = blocks a' \<and>
            int (length (blocks a')) \<le> p_max_block_number (params a) \<and>
            (int (length (blocks a')) < p_max_block_number (params a) \<longleftrightarrow>
               no_block_indices (new_records a a') = [int (length (blocks a'))]) \<and>
            (int (length (blocks a')) < p_max_block_number (params a) \<or>
               no_block_indices (new_records a a') = []) \<and>
            (int (length (blocks a')) < p_max_block_number (params a) \<longrightarrow>
               (\<exists>a3. find_next_block E a3 (int (length (blocks a'))) lf' = Inr None \<and>
                     a' = info (NoBlockFound (int (length (blocks a')))) a3))) \<and>
         (find_next_block E a2 i lf2 = Inr None \<longrightarrow>
            run_loop E lf2 (i # rest) a2 = Inr (info (NoBlockFound i) a2))"
proof (intro conjI impI)
  let ?N = "p_max_block_number (params a)"
  assume f: "run E lf a = Inl (e, a1, lf1)"
  show "\<exists>new. blocks a1 = blocks a @ new \<and> int (length new) \<le> ?N"
  proof (cases "blocks a = []")
    case False
    with f have "a1 = a" by (simp add: run_def)
    with N show ?thesis by simp
  next
    case True
    with f have "run_loop E (write_caption E a lf) (range0 ?N) a = Inl (e, a1)"
      by (auto simp: run_def Let_def split: sum.splits)
    from run_loop_raises [OF this] obtain new where
      "blocks a1 = blocks a @ new" "length new < nat ?N" by auto
    then have "blocks a1 = blocks a @ new \<and> int (length new) \<le> ?N" by linarith
    then show ?thesis by blast
  qed
next
  let ?N = "p_max_block_number (params a)"
  assume r0: "run E lf a = Inr (w, a', lf')"
  then have e: "blocks a = []" and lf': "lf' = write_caption E a lf"
    and r: "run_loop E lf' (range0 ?N) a = Inr a'" and w: "w = make_waterfall a'"
    by (auto simp: run_def Let_def split: if_splits sum.splits)
  from run_loop_shape [OF r] obtain k recs where
    k: "k \<le> nat ?N" and b: "length (blocks a') = k" and l: "logged a' = logged a @ recs"
    and n: "no_block_indices recs = (if k < nat ?N then [range0 ?N ! k] else [])"
    and x: "k < nat ?N \<longrightarrow>
       (\<exists>a3. find_next_block E a3 (range0 ?N ! k) lf' = Inr None \<and>
             a' = info (NoBlockFound (range0 ?N ! k)) a3)"
    using e by auto
  have nr: "new_records a a' = recs" by (simp add: new_records_def l)
  have lt: "int k < ?N \<longleftrightarrow> k < nat ?N" by linarith
  show "blocks a = []" by (rule e)
  show "wf_blocks w = blocks a'" by (simp add: w make_waterfall_def)
  show "int (length (blocks a')) \<le> ?N" using k b N by linarith
  show "(int (length (blocks a')) < ?N) = (no_block_indices (new_records a a') = [int (length (blocks a'))])"
    using n by (simp add: nr b lt range0_nth)
  show "int (length (blocks a')) < ?N \<or> no_block_indices (new_records a a') = []"
    using n by (simp add: nr b lt)
  show "\<exists>a3. find_next_block E a3 (int (length (blocks a'))) lf' = Inr None \<and>
                a' = info (NoBlockFound (int (length (blocks a')))) a3"
    if "int (length (blocks a')) < ?N"
    using that x by (simp add: b lt range0_nth)
next
  assume "find_next_block E a2 i lf2 = Inr None"
  then show "run_loop E lf2 (i # rest) a2 = Inr (info (NoBlockFound i) a2)" by simp
qed

theorem run_bounded_witness:
  "0 \<le> p_max_block_number (params ex_a0) \<and>
   p_max_block_number (params ex_a0) = 3 \<and>
   run ex_env None ex_a0 = Inr (make_waterfall ex_a3, ex_a3, None) \<and>
   blocks ex_a0 = [] \<and> length (blocks ex_a3) = 2 \<and>
   wf_blocks (make_waterfall ex_a3) = blocks ex_a3 \<and>
   no_block_indices (new_records ex_a0 ex_a3) = [2] \<and>
   find_next_block ex_env ex_a2 2 None = Inr None \<and>
   ex_a3 = info (NoBlockFound 2) ex_a2 \<and>
   run_loop ex_env None [2] ex_a2 = Inr (info (NoBlockFound 2) ex_a2) \<and>
   run ex_env_keep None ex_a0 = Inl (AssertionError, ex_k0, None) \<and>
   blocks ex_k0 = blocks ex_a0 @ [] \<and> length (blocks ex_k0) = 0"
proof -
  have p: "p_max_block_number (params ex_a0) = 3" "length (blocks ex_a3) = 2"
    "ex_a3 = info (NoBlockFound 2) ex_a2" "blocks ex_a0 = []"
    "blocks ex_k0 = blocks ex_a0 @ []" "length (blocks ex_k0) = 0"
    by (simp_all add: ex_a0_def ex_a2_def ex_a3_def ex_k0_def ex_params_def info_def)
  have N: "0 \<le> p_max_block_number (params ex_a0)" by (simp add: p)
  note t = run_bounded [OF N, where E = ex_env and lf = None and w = "make_waterfall ex_a3"
      and a' = ex_a3 and lf' = None and ?a2.0 = ex_a2 and i = 2 and ?lf2.0 = None and rest = "[]"]
  from t [THEN conjunct2, THEN conjunct1, THEN mp, OF ex_run]
  have "wf_blocks (make_waterfall ex_a3) = blocks ex_a3" by blast
  moreover from t [THEN conjunct2, THEN conjunct2, THEN mp, OF ex_find2 [of None]]
  have "run_loop ex_env None [2] ex_a2 = Inr (info (NoBlockFound 2) ex_a2)" .
  moreover from run_bounded [OF N, where E = ex_env_keep and lf = None and e = AssertionError
      and ?a1.0 = ex_k0 and ?lf1.0 = None, THEN conjunct1, THEN mp, OF ex_keep_run]
  have "\<exists>new. blocks ex_k0 = blocks ex_a0 @ new \<and>
          int (length new) \<le> p_max_block_number (params ex_a0)" .
  ultimately show ?thesis
    using p N ex_run ex_new_records ex_find2 [of None] ex_keep_run by blast
qed

subsection \<open>Running twice\<close>

text \<open>
  Claim C5, amended. After a run that returned with at least one discovered block, another
  call of \<^verbatim>\<open>run\<close> raises \<^verbatim>\<open>AssertionError\<close> at once: the object and the log file are as
  they were.
\<close>

theorem second_run_fails:
  assumes "run E lf a = Inr (w, a', lf')" and "blocks a' \<noteq> []"
  shows "run E lf2 a' = Inl (AssertionError, a', lf2)"
  using assms(2) by (simp add: run_def)

theorem second_run_fails_witness:
  "run ex_env None ex_a0 = Inr (make_waterfall ex_a3, ex_a3, None) \<and>
   length (blocks ex_a3) = 2 \<and>
   run ex_env (Some []) ex_a3 = Inl (AssertionError, ex_a3, Some [])"
proof -
  have b: "blocks ex_a3 \<noteq> []" "length (blocks ex_a3) = 2"
    by (simp_all add: ex_a3_def ex_a2_def)
  from second_run_fails [OF ex_run b(1), where ?lf2.0 = "Some []"] b ex_run
  show ?thesis by simp
qed

text \<open>
  When the strategy finds no block the discovered list is still empty after the first run,
  the guard of the second call passes, and the second call asks the strategy again and
  returns a waterfall as the first did.
\<close>

lemma ex_idle_init: "init ex_env_idle ex_params ex_df = Inr ex_a0"
  by (simp add: init_def initial_def Let_def info_def CORRECT_MODES_def remove_unnecessary_dimensions_def
      from_block_def ex_a0_def ex_env_idle_def ex_defs)

theorem second_run_fails_counterexample:
  "init ex_env_idle ex_params ex_df = Inr ex_a0 \<and>
   run ex_env_idle None ex_a0 = Inr (make_waterfall ex_i1, ex_i1, None) \<and>
   run ex_env_idle None ex_i1 = Inr (make_waterfall ex_i2, ex_i2, None) \<and>
   logged ex_i1 = [NoBlockFound 0] \<and> logged ex_i2 = [NoBlockFound 0, NoBlockFound 0]"
proof -
  have f: "find_next_block ex_env_idle a i lf = Inr None" for a i lf
    by (simp add: ex_env_idle_def ex_env_def)
  have c: "log_file_caption ex_env_idle a = None" for a
    by (simp add: ex_env_idle_def ex_env_def)
  have p: "blocks ex_a0 = []" "blocks ex_i1 = []" "p_max_block_number (params ex_a0) = 3"
    "p_max_block_number (params ex_i1) = 3"
    "info (NoBlockFound 0) ex_a0 = ex_i1" "info (NoBlockFound 0) ex_i1 = ex_i2"
    "logged ex_i1 = [NoBlockFound 0]" "logged ex_i2 = [NoBlockFound 0, NoBlockFound 0]"
    by (simp_all add: ex_a0_def ex_i1_def ex_i2_def ex_params_def info_def)
  have "run ex_env_idle None ex_a0 = Inr (make_waterfall ex_i1, ex_i1, None)"
    "run ex_env_idle None ex_i1 = Inr (make_waterfall ex_i2, ex_i2, None)"
    by (simp_all add: run_def write_caption_def range0_3 f p)
  with ex_idle_init p show ?thesis by simp
qed

subsection \<open>Correction modes other than DEL\<close>

lemma correct_facts_not_DEL:
  "parent b = Some (global_block a) \<Longrightarrow> correct_mode a \<noteq> ''DEL'' \<Longrightarrow>
     correct_facts E b a = Inl (TypeError not_callable, a)"
  by (simp add: correct_facts_def)

text \<open>
  Claim C6. On an object whose correction mode is MUL, the correction step of a block with
  the right parent raises \<^verbatim>\<open>TypeError\<close>, with the interpreter's message that
  \<^verbatim>\<open>NotImplemented\<close> is not callable: the failure is not a not-implemented one and its
  message does not name the mode.
\<close>

theorem other_mode_raises_type_error:
  "correct_mode ex_mul = ''MUL'' \<and> parent ex_b0 = Some (global_block ex_mul) \<and>
   correct_facts ex_env ex_b0 ex_mul = Inl (TypeError not_callable, ex_mul) \<and>
   not_callable = [CHR 0x27] @ ''NotImplementedType'' @ [CHR 0x27] @ '' object is not callable''"
proof -
  have p: "correct_mode ex_mul = ''MUL''" "parent ex_b0 = Some (global_block ex_mul)"
    by (simp_all add: ex_mul_def ex_a0_def ex_b0_def)
  have "correct_facts ex_env ex_b0 ex_mul = Inl (TypeError not_callable, ex_mul)"
    by (rule correct_facts_not_DEL) (simp_all add: p)
  with p show ?thesis by (simp add: not_callable_def)
qed

end
